theory Spec2Isabelle
  imports Complex_Main
begin

section \<open>JavaScript values\<close>

text \<open>
  The repository holds three Node.js programs: \<^verbatim>\<open>index.js\<close> (the play-by-play updater), a
  second revision of the play-by-play updater (its definitions carry the suffix \<open>_000\<close>
  here) and the odds updater (suffix \<open>_001\<close> where a name would clash).

  A JavaScript string is a sequence of UTF-16 code units. The programs compare code units
  with \<^verbatim>\<open>'"'\<close> and \<^verbatim>\<open>','\<close>, trim white space and match regular expressions without the
  \<^verbatim>\<open>u\<close> flag, all of which work on code units, so a string is a list of numbers; \<open>jstr\<close>
  writes an ASCII literal.
\<close>

type_synonym jsstring = "nat list"

definition jstr :: "string \<Rightarrow> jsstring" where
  "jstr s = map of_char s"

text \<open>
  A Number is \<open>NaN\<close>, an infinity (\<open>Inf True\<close> is the negative one) or a finite value. Every
  finite double is a rational number; the programs never compute with the finite values
  (they parse, test and store them), so rounding plays no part and the two zeros are one.
\<close>

datatype jsnum = NaN | Inf bool | Fin rat

datatype jsval = JUndefined | JNull | JBool bool | JNum jsnum | JStr jsstring

text \<open>
  The built-in functions of the host that the programs call. What they compute on a given
  argument is the engine's business (\<^verbatim>\<open>Date.parse\<close> is implementation-defined outside the
  ISO format); every theorem below holds for whatever they return. \<open>None\<close> from
  \<open>h_DateParse\<close> is the time value \<open>NaN\<close> of an invalid date; \<open>h_LocalTZA\<close> is the offset
  of the process's time zone at a time value, in milliseconds.
\<close>

record host =
  h_parseFloat :: "jsval \<Rightarrow> jsnum"
  h_parseInt :: "jsval \<Rightarrow> jsnum"
  h_Number :: "jsval \<Rightarrow> jsnum"
  h_NumberToString :: "jsnum \<Rightarrow> jsstring"
  h_DateParse :: "jsstring \<Rightarrow> int option"
  h_LocalTZA :: "int \<Rightarrow> int"

text \<open>\<^verbatim>\<open>String(value)\<close> and the conversion in a template literal.\<close>

fun ToString :: "host \<Rightarrow> jsval \<Rightarrow> jsstring" where
  "ToString h JUndefined = jstr ''undefined''"
| "ToString h JNull = jstr ''null''"
| "ToString h (JBool b) = (if b then jstr ''true'' else jstr ''false'')"
| "ToString h (JNum n) = h_NumberToString h n"
| "ToString h (JStr s) = s"

text \<open>Truthiness, as \<^verbatim>\<open>if (x)\<close>, \<^verbatim>\<open>!x\<close> and \<^verbatim>\<open>x || y\<close> test it.\<close>

fun truthy :: "jsval \<Rightarrow> bool" where
  "truthy JUndefined = False"
| "truthy JNull = False"
| "truthy (JBool b) = b"
| "truthy (JNum n) = (n \<noteq> NaN \<and> n \<noteq> Fin 0)"
| "truthy (JStr s) = (s \<noteq> [])"

text \<open>White space as \<^verbatim>\<open>String.prototype.trim\<close> and the class \<^verbatim>\<open>\s\<close> see it: the code points
  WhiteSpace and LineTerminator of ECMAScript, each a single code unit.\<close>

definition isWhiteSpace :: "nat \<Rightarrow> bool" where
  "isWhiteSpace c =
     (c = 9 \<or> c = 10 \<or> c = 11 \<or> c = 12 \<or> c = 13 \<or> c = 32 \<or> c = 160 \<or> c = 5760
      \<or> (8192 \<le> c \<and> c \<le> 8202) \<or> c = 8232 \<or> c = 8233 \<or> c = 8239 \<or> c = 8287
      \<or> c = 12288 \<or> c = 65279)"

definition trim :: "jsstring \<Rightarrow> jsstring" where
  "trim s = rev (dropWhile isWhiteSpace (rev (dropWhile isWhiteSpace s)))"

section \<open>Dates\<close>

text \<open>
  A \<^verbatim>\<open>Date\<close> holds a time value: a number of milliseconds since the epoch, or \<open>NaN\<close> for an
  invalid date (\<open>None\<close>). The functions below are the abstract operations of ECMAScript
  (\<^verbatim>\<open>Day\<close>, \<^verbatim>\<open>DayFromYear\<close>, \<^verbatim>\<open>MonthFromTime\<close>, \<^verbatim>\<open>MakeDay\<close>, \<^verbatim>\<open>TimeClip\<close>, ...) that
  \<^verbatim>\<open>Date.UTC\<close>, \<^verbatim>\<open>getUTCFullYear\<close>, \<^verbatim>\<open>getUTCMonth\<close>, \<^verbatim>\<open>getUTCDate\<close> and \<^verbatim>\<open>setUTCDate\<close> are made
  of. \<^verbatim>\<open>YearFromTime(t)\<close>, the largest year that starts at or before \<open>t\<close>, is found by
  a search upwards from a year that is early enough; \<^verbatim>\<open>MakeDay\<close> finds the first day of
  the month through \<open>MonthStart\<close>.
\<close>

definition msPerDay :: int where "msPerDay = 86400000"

definition Day :: "int \<Rightarrow> int" where "Day t = t div msPerDay"
definition TimeWithinDay :: "int \<Rightarrow> int" where "TimeWithinDay t = t mod msPerDay"

definition DaysInYear :: "int \<Rightarrow> int" where
  "DaysInYear y =
     (if y mod 4 \<noteq> 0 then 365 else if y mod 100 \<noteq> 0 then 366
      else if y mod 400 \<noteq> 0 then 365 else 366)"

definition DayFromYear :: "int \<Rightarrow> int" where
  "DayFromYear y = 365 * (y - 1970) + (y - 1969) div 4 - (y - 1901) div 100 + (y - 1601) div 400"

lemma div_succ:
  fixes a n :: int
  assumes "0 < n"
  shows "(a + 1) div n = a div n + (if n dvd a + 1 then 1 else 0)"
proof (cases "a mod n + 1 = n")
  case True
  have "a + 1 = n * (a div n + 1)"
    using True by (metis add.assoc distrib_left mult.right_neutral mult_div_mod_eq)
  then show ?thesis using assms by (metis dvd_triv_left nonzero_mult_div_cancel_left less_irrefl)
next
  case False
  have r: "0 \<le> a mod n" "a mod n < n" using assms by simp_all
  then have lt: "a mod n + 1 < n" using False by linarith
  have e: "a + 1 = (a mod n + 1) + (a div n) * n" by simp
  have "(a + 1) div n = (a mod n + 1) div n + a div n"
    by (subst e) (simp only: div_mult_self1 [OF less_imp_neq [OF assms, symmetric]] add.commute)
  moreover have "(a mod n + 1) div n = 0" using r lt by simp
  moreover have "(a + 1) mod n = a mod n + 1"
    using r lt by (metis e mod_mult_self1 mod_pos_pos_trivial add_nonneg_nonneg zero_le_one)
  ultimately show ?thesis using r by (auto simp: dvd_eq_mod_eq_0)
qed

lemma dvd_shift: "(n::int) dvd k \<Longrightarrow> n dvd y - k \<longleftrightarrow> n dvd y"
  by (simp add: dvd_diff_left_iff)

lemma DaysInYear_dvd:
  "DaysInYear y = 365 + (if 4 dvd y then 1 else 0) - (if 100 dvd y then 1 else 0)
     + (if 400 dvd y then (1::int) else 0)"
proof -
  define P4 where "P4 = (4 dvd y)"
  define P100 where "P100 = (100 dvd y)"
  define P400 where "P400 = (400 dvd y)"
  have p: "P400 \<Longrightarrow> P100"
    unfolding P400_def P100_def by (rule dvd_trans [of 100 400]) simp_all
  have q: "P100 \<Longrightarrow> P4"
    unfolding P4_def P100_def by (rule dvd_trans [of 4 100]) simp_all
  have "DaysInYear y =
      (if \<not> P4 then 365 else if \<not> P100 then 366 else if \<not> P400 then 365 else 366)"
    by (simp only: DaysInYear_def mod_eq_0_iff_dvd P4_def P100_def P400_def)
  also have "\<dots> = 365 + (if P4 then 1 else 0) - (if P100 then 1 else 0)
      + (if P400 then (1::int) else 0)"
    using p q by (cases P4; cases P100; cases P400; simp)
  finally show ?thesis by (simp only: P4_def P100_def P400_def)
qed

lemma DaysInYear_cases: "DaysInYear y = 365 \<or> DaysInYear y = 366"
  unfolding DaysInYear_def by (simp only: split: if_split) simp

lemma s4: "((y::int) + 1 - 1969) div 4 = (y - 1969) div 4 + (if 4 dvd y then 1 else 0)"
  using div_succ [of 4 "y - 1969"] dvd_shift [of 4 1968 y] by (simp add: algebra_simps)
lemma s100: "((y::int) + 1 - 1901) div 100 = (y - 1901) div 100 + (if 100 dvd y then 1 else 0)"
  using div_succ [of 100 "y - 1901"] dvd_shift [of 100 1900 y] by (simp add: algebra_simps)
lemma s400: "((y::int) + 1 - 1601) div 400 = (y - 1601) div 400 + (if 400 dvd y then 1 else 0)"
  using div_succ [of 400 "y - 1601"] dvd_shift [of 400 1600 y] by (simp add: algebra_simps)

lemma DayFromYear_step: "DayFromYear (y + 1) = DayFromYear y + DaysInYear y"
proof -
  define A where "A = (y - 1969) div 4"
  define B where "B = (y - 1901) div 100"
  define C where "C = (y - 1601) div 400"
  define a :: int where "a = (if 4 dvd y then 1 else 0)"
  define b :: int where "b = (if 100 dvd y then 1 else 0)"
  define c :: int where "c = (if 400 dvd y then 1 else 0)"
  have "DayFromYear (y + 1) = 365 * (y + 1 - 1970) + (A + a) - (B + b) + (C + c)"
    by (simp only: DayFromYear_def s4 s100 s400 A_def B_def C_def a_def b_def c_def)
  moreover have "DayFromYear y = 365 * (y - 1970) + A - B + C"
    by (simp only: DayFromYear_def A_def B_def C_def)
  moreover have "DaysInYear y = 365 + a - b + c"
    by (simp only: DaysInYear_dvd a_def b_def c_def)
  ultimately show ?thesis by simp
qed

lemma DayFromYear_less: "DayFromYear y < DayFromYear (y + 1)"
  using DaysInYear_cases [of y] DayFromYear_step [of y] by linarith

lemma DayFromYear_1970: "DayFromYear 1970 = 0"
  by (simp add: DayFromYear_def)

function yearUp :: "int \<Rightarrow> int \<Rightarrow> int" where
  "yearUp d y = (if DayFromYear (y + 1) \<le> d then yearUp d (y + 1) else y)"
  by pat_completeness auto
termination
proof (relation "measure (\<lambda>(d, y). nat (d - DayFromYear y))")
  fix d y :: int
  assume "DayFromYear (y + 1) \<le> d"
  then show "((d, y + 1), (d, y)) \<in> measure (\<lambda>(d, y). nat (d - DayFromYear y))"
    using DayFromYear_less [of y] by simp
qed simp

declare yearUp.simps [simp del]

definition YearFromTime :: "int \<Rightarrow> int" where
  "YearFromTime t =
     (let d = Day t in yearUp d (1970 + (if 0 \<le> d then d div 366 else d div 365)))"

lemma yearUp_ge: "y \<le> yearUp d y"
proof (induction d y rule: yearUp.induct)
  case (1 d y)
  show ?case
  proof (cases "DayFromYear (y + 1) \<le> d")
    case True
    then show ?thesis using 1 by (subst yearUp.simps) simp
  next
    case False
    then show ?thesis by (subst yearUp.simps) simp
  qed
qed

lemma yearUp_bounds:
  "DayFromYear y \<le> d \<Longrightarrow>
     DayFromYear (yearUp d y) \<le> d \<and> d < DayFromYear (yearUp d y + 1)"
proof (induction d y rule: yearUp.induct)
  case (1 d y)
  show ?case
  proof (cases "DayFromYear (y + 1) \<le> d")
    case True
    then show ?thesis using 1 by (subst (1 2) yearUp.simps) simp
  next
    case False
    then show ?thesis using 1 by (subst (1 2) yearUp.simps) simp
  qed
qed

lemma DayFromYear_upper: "0 \<le> k \<Longrightarrow> DayFromYear (1970 + k) \<le> 366 * k"
proof (induction k rule: int_ge_induct)
  case base
  then show ?case by (simp add: DayFromYear_1970)
next
  case (step i)
  have "DayFromYear (1970 + (i + 1)) = DayFromYear (1970 + i) + DaysInYear (1970 + i)"
    using DayFromYear_step [of "1970 + i"] by (simp add: add.assoc)
  then show ?case using step DaysInYear_cases [of "1970 + i"] by auto
qed

lemma DayFromYear_lower: "k \<le> 0 \<Longrightarrow> DayFromYear (1970 + k) \<le> 365 * k"
proof (induction k rule: int_le_induct)
  case base
  then show ?case by (simp add: DayFromYear_1970)
next
  case (step i)
  have "DayFromYear (1970 + i) = DayFromYear (1970 + (i - 1)) + DaysInYear (1970 + (i - 1))"
    using DayFromYear_step [of "1970 + (i - 1)"] by (simp add: algebra_simps)
  then show ?case using step DaysInYear_cases [of "1970 + (i - 1)"] by auto
qed

lemma YearFromTime_bounds:
  "DayFromYear (YearFromTime t) \<le> Day t \<and> Day t < DayFromYear (YearFromTime t + 1)"
proof -
  define d where "d = Day t"
  define k where "k = (if 0 \<le> d then d div 366 else d div 365)"
  have "DayFromYear (1970 + k) \<le> d"
  proof (cases "0 \<le> d")
    case True
    then have "0 \<le> k" "366 * k \<le> d" by (simp_all add: k_def pos_imp_zdiv_nonneg_iff)
    then show ?thesis using DayFromYear_upper [of k] by linarith
  next
    case False
    then have "k \<le> 0" "365 * k \<le> d"
      by (simp_all add: k_def div_nonpos_pos_le0)
    then show ?thesis using DayFromYear_lower [of k] by linarith
  qed
  moreover have "YearFromTime t = yearUp d (1970 + k)"
    by (simp add: YearFromTime_def Let_def d_def k_def)
  ultimately show ?thesis
    using yearUp_bounds [of "1970 + k" d] by (simp add: d_def)
qed

lemma YearFromTime_ge_1970: "0 \<le> t \<Longrightarrow> 1970 \<le> YearFromTime t"
proof -
  assume "0 \<le> t"
  then have "0 \<le> Day t" by (simp add: Day_def msPerDay_def pos_imp_zdiv_nonneg_iff)
  then have "0 \<le> Day t div 366" by (simp add: pos_imp_zdiv_nonneg_iff)
  then show ?thesis
    using yearUp_ge [of "1970 + Day t div 366" "Day t"] \<open>0 \<le> Day t\<close>
    by (simp add: YearFromTime_def Let_def)
qed


definition DayWithinYear :: "int \<Rightarrow> int" where
  "DayWithinYear t = Day t - DayFromYear (YearFromTime t)"

definition InLeapYear :: "int \<Rightarrow> int" where
  "InLeapYear t = (if DaysInYear (YearFromTime t) = 365 then 0 else 1)"

definition MonthFromTime :: "int \<Rightarrow> int" where
  "MonthFromTime t =
     (let d = DayWithinYear t; l = InLeapYear t in
      if d < 31 then 0 else if d < 59 + l then 1 else if d < 90 + l then 2
      else if d < 120 + l then 3 else if d < 151 + l then 4 else if d < 181 + l then 5
      else if d < 212 + l then 6 else if d < 243 + l then 7 else if d < 273 + l then 8
      else if d < 304 + l then 9 else if d < 334 + l then 10 else 11)"

definition DateFromTime :: "int \<Rightarrow> int" where
  "DateFromTime t =
     (let d = DayWithinYear t; l = InLeapYear t; m = MonthFromTime t in
      if m = 0 then d + 1 else if m = 1 then d - 30 else if m = 2 then d - 58 - l
      else if m = 3 then d - 89 - l else if m = 4 then d - 119 - l
      else if m = 5 then d - 150 - l else if m = 6 then d - 180 - l
      else if m = 7 then d - 211 - l else if m = 8 then d - 242 - l
      else if m = 9 then d - 272 - l else if m = 10 then d - 303 - l else d - 333 - l)"

definition MakeTime :: "int \<Rightarrow> int \<Rightarrow> int \<Rightarrow> int \<Rightarrow> int" where
  "MakeTime hour minute sec ms = hour * 3600000 + minute * 60000 + sec * 1000 + ms"

definition MonthStart :: "int \<Rightarrow> int \<Rightarrow> int" where
  "MonthStart mn l =
     (if mn = 0 then 0 else if mn = 1 then 31 else if mn = 2 then 59 + l
      else if mn = 3 then 90 + l else if mn = 4 then 120 + l
      else if mn = 5 then 151 + l else if mn = 6 then 181 + l
      else if mn = 7 then 212 + l else if mn = 8 then 243 + l
      else if mn = 9 then 273 + l else if mn = 10 then 304 + l else 334 + l)"

definition MakeDay :: "int \<Rightarrow> int \<Rightarrow> int \<Rightarrow> int" where
  "MakeDay year month date =
     (let ym = year + month div 12; mn = month mod 12
      in DayFromYear ym + MonthStart mn (if DaysInYear ym = 365 then 0 else 1) + date - 1)"

definition MakeDate :: "int \<Rightarrow> int \<Rightarrow> int" where
  "MakeDate day time = day * msPerDay + time"

definition TimeClip :: "int \<Rightarrow> int option" where
  "TimeClip t = (if \<bar>t\<bar> > 8640000000000000 then None else Some t)"

definition DateUTC :: "int \<Rightarrow> int \<Rightarrow> int \<Rightarrow> int \<Rightarrow> int \<Rightarrow> int \<Rightarrow> int option" where
  "DateUTC year month date hours minutes seconds =
     (let yr = (if 0 \<le> year \<and> year \<le> 99 then 1900 + year else year)
      in TimeClip (MakeDate (MakeDay yr month date) (MakeTime hours minutes seconds 0)))"

lemma if_mem: "a \<in> S \<Longrightarrow> b \<in> S \<Longrightarrow> (if c then a else b) \<in> S"
  by simp

lemma MonthFromTime_cases:
  "MonthFromTime t \<in> {0, 1, 2, 3, 4, 5, 6, 7, 8, 9, 10, 11}"
  unfolding MonthFromTime_def Let_def by (intro if_mem) simp_all

lemma MonthStart_DateFromTime:
  "MonthStart (MonthFromTime t) (InLeapYear t) + DateFromTime t = DayWithinYear t + 1"
proof -
  define m where "m = MonthFromTime t"
  have "m = 0 \<or> m = 1 \<or> m = 2 \<or> m = 3 \<or> m = 4 \<or> m = 5 \<or> m = 6 \<or> m = 7 \<or> m = 8
      \<or> m = 9 \<or> m = 10 \<or> m = 11"
    using MonthFromTime_cases [of t] by (simp add: m_def)
  then have "MonthStart m (InLeapYear t) +
      (let d = DayWithinYear t; l = InLeapYear t in
      if m = 0 then d + 1 else if m = 1 then d - 30 else if m = 2 then d - 58 - l
      else if m = 3 then d - 89 - l else if m = 4 then d - 119 - l
      else if m = 5 then d - 150 - l else if m = 6 then d - 180 - l
      else if m = 7 then d - 211 - l else if m = 8 then d - 242 - l
      else if m = 9 then d - 272 - l else if m = 10 then d - 303 - l else d - 333 - l)
      = DayWithinYear t + 1"
    by (elim disjE) (simp_all add: MonthStart_def Let_def)
  then show ?thesis by (simp only: DateFromTime_def Let_def m_def)
qed

lemma MakeDay_of_time:
  "MakeDay (YearFromTime t) (MonthFromTime t) (DateFromTime t + k) = Day t + k"
proof -
  have m: "MonthFromTime t div 12 = 0" "MonthFromTime t mod 12 = MonthFromTime t"
    using MonthFromTime_cases [of t] by auto
  have "MakeDay (YearFromTime t) (MonthFromTime t) (DateFromTime t + k)
      = DayFromYear (YearFromTime t)
        + (MonthStart (MonthFromTime t) (InLeapYear t) + DateFromTime t) + k - 1"
    by (simp add: MakeDay_def Let_def m InLeapYear_def)
  then show ?thesis
    by (simp add: MonthStart_DateFromTime DayWithinYear_def)
qed


lemma DayFromYear_mono: "y \<le> y' \<Longrightarrow> DayFromYear y \<le> DayFromYear y'"
proof (induction y' rule: int_ge_induct)
  case base
  show ?case by simp
next
  case (step i)
  then show ?case using DayFromYear_less [of i] by linarith
qed

lemma YearFromTime_unique:
  assumes "DayFromYear y \<le> Day t" and "Day t < DayFromYear (y + 1)"
  shows "YearFromTime t = y"
proof (rule ccontr)
  assume n: "YearFromTime t \<noteq> y"
  note b = YearFromTime_bounds [of t]
  show False
  proof (cases "YearFromTime t < y")
    case True
    then have "DayFromYear (YearFromTime t + 1) \<le> DayFromYear y"
      by (intro DayFromYear_mono) simp
    then show False using b assms by linarith
  next
    case False
    then have "DayFromYear (y + 1) \<le> DayFromYear (YearFromTime t)"
      using n by (intro DayFromYear_mono) simp
    then show False using b assms by linarith
  qed
qed

text \<open>\<^verbatim>\<open>MakeDay\<close> asks for a time value in the year \<open>ym\<close> and the month \<open>mn\<close> whose date is 1:
  the day \<open>DayFromYear ym + MonthStart mn l\<close> is one.\<close>

lemma MonthStart_is_first_day:
  assumes "0 \<le> mn" and "mn \<le> 11"
    and t_def: "t = (DayFromYear ym + MonthStart mn (if DaysInYear ym = 365 then 0 else 1)) * msPerDay"
  shows "YearFromTime t = ym \<and> MonthFromTime t = mn \<and> DateFromTime t = 1"
proof -
  define l :: int where "l = (if DaysInYear ym = 365 then 0 else 1)"
  have m: "mn = 0 \<or> mn = 1 \<or> mn = 2 \<or> mn = 3 \<or> mn = 4 \<or> mn = 5 \<or> mn = 6 \<or> mn = 7 \<or> mn = 8
      \<or> mn = 9 \<or> mn = 10 \<or> mn = 11"
    using assms(1,2) by presburger
  have l01: "l = 0 \<or> l = 1" by (simp add: l_def)
  have dl: "DaysInYear ym = 365 + l"
    using DaysInYear_cases [of ym] by (auto simp: l_def)
  have s: "0 \<le> MonthStart mn l \<and> MonthStart mn l \<le> 334 + l"
    using m l01 by (elim disjE) (simp_all add: MonthStart_def)
  have d: "Day t = DayFromYear ym + MonthStart mn l"
    by (simp add: t_def Day_def msPerDay_def l_def)
  have y: "YearFromTime t = ym"
    using s dl DayFromYear_step [of ym] by (intro YearFromTime_unique) (simp_all add: d)
  have w: "DayWithinYear t = MonthStart mn l"
    by (simp add: DayWithinYear_def y d)
  have il: "InLeapYear t = l"
    by (simp add: InLeapYear_def y l_def)
  have mo: "MonthFromTime t = mn"
    unfolding MonthFromTime_def Let_def w il
    using m l01 by (elim disjE) (simp_all add: MonthStart_def)
  have "DateFromTime t = 1"
    unfolding DateFromTime_def Let_def w il mo
    using m by (elim disjE) (simp_all add: MonthStart_def)
  then show ?thesis using y mo by simp
qed

text \<open>Some values, as \<^verbatim>\<open>Date.UTC\<close> and the getters of a \<^verbatim>\<open>Date\<close> give them.\<close>

lemma calendar_examples:
  "DateUTC 2025 10 2 0 0 0 = Some 1762041600000"
  "DateUTC 2026 1 28 23 59 59 = Some 1772323199000"
  "DateUTC 2024 1 29 0 0 0 = Some 1709164800000"
  "DateUTC 1969 11 31 0 0 0 = Some (- 86400000)"
  "DateUTC 2025 10 32 0 0 0 = Some 1764633600000"
  "DateUTC 2025 12 1 0 0 0 = Some 1767225600000"
  "DateUTC 99 0 1 0 0 0 = Some 915148800000"
  "DateUTC 1900 2 1 0 0 0 = Some (- 2203891200000)"
  "YearFromTime 1762085000000 = 2025"
  "MonthFromTime 1762085000000 = 10"
  "DateFromTime 1762085000000 = 2"
  "YearFromTime (- 1) = 1969" "MonthFromTime (- 1) = 11" "DateFromTime (- 1) = 31"
  by code_simp+

text \<open>\<^verbatim>\<open>new Date(value)\<close> with one argument.\<close>

fun newDate :: "host \<Rightarrow> jsval \<Rightarrow> int option" where
  "newDate h (JStr s) = (case h_DateParse h s of None \<Rightarrow> None | Some t \<Rightarrow> TimeClip t)"
| "newDate h JUndefined = None"
| "newDate h JNull = TimeClip 0"
| "newDate h (JBool b) = TimeClip (if b then 1 else 0)"
| "newDate h (JNum n) =
     (case n of Fin x \<Rightarrow> TimeClip (if x < 0 then \<lceil>x\<rceil> else \<lfloor>x\<rfloor>) | _ \<Rightarrow> None)"

text \<open>\<^verbatim>\<open>a >= b\<close>, \<^verbatim>\<open>a <= b\<close> and \<^verbatim>\<open>a < b\<close> on two dates compare the time values as numbers; a
  comparison with \<open>NaN\<close> is false.\<close>

fun date_ge :: "int option \<Rightarrow> int option \<Rightarrow> bool" where
  "date_ge (Some a) (Some b) = (a \<ge> b)"
| "date_ge _ _ = False"

fun date_le :: "int option \<Rightarrow> int option \<Rightarrow> bool" where
  "date_le (Some a) (Some b) = (a \<le> b)"
| "date_le _ _ = False"

fun date_lt :: "int option \<Rightarrow> int option \<Rightarrow> bool" where
  "date_lt (Some a) (Some b) = (a < b)"
| "date_lt _ _ = False"

section \<open>Type conversion helpers\<close>

subsection \<open>\<^verbatim>\<open>index.js\<close>\<close>

definition safeNumeric :: "host \<Rightarrow> jsval \<Rightarrow> jsval" where
  "safeNumeric h value =
     (if value = JNull \<or> value = JUndefined \<or> value = JStr [] \<or> value = JStr (jstr ''NA'')
      then JNull
      else let num = h_parseFloat h value in if num = NaN then JNull else JNum num)"

definition safeInteger :: "host \<Rightarrow> jsval \<Rightarrow> jsval" where
  "safeInteger h value =
     (if value = JNull \<or> value = JUndefined \<or> value = JStr [] \<or> value = JStr (jstr ''NA'')
      then JNull
      else let num = h_parseInt h value in if num = NaN then JNull else JNum num)"

definition safeText :: "host \<Rightarrow> jsval \<Rightarrow> jsval" where
  "safeText h value =
     (if value = JNull \<or> value = JUndefined \<or> value = JStr [] \<or> value = JStr (jstr ''NA'')
      then JNull
      else JStr (trim (ToString h value)))"

definition safeBoolean :: "jsval \<Rightarrow> jsval" where
  "safeBoolean value =
     (if value = JNull \<or> value = JUndefined \<or> value = JStr [] \<or> value = JStr (jstr ''NA'')
      then JNull
      else JBool (value = JStr (jstr ''1'') \<or> value = JStr (jstr ''true'') \<or> value = JBool True))"

definition safeDouble :: "host \<Rightarrow> jsval \<Rightarrow> jsval" where
  "safeDouble h value =
     (if value = JNull \<or> value = JUndefined \<or> value = JStr [] \<or> value = JStr (jstr ''NA'')
      then JNull
      else let num = h_parseFloat h value in if num = NaN then JNull else JNum num)"

subsection \<open>The second revision of the play-by-play updater\<close>

text \<open>It has three helpers; \<open>safeNumeric\<close> converts with \<^verbatim>\<open>Number(value)\<close> there.\<close>

definition safeNumeric_000 :: "host \<Rightarrow> jsval \<Rightarrow> jsval" where
  "safeNumeric_000 h value =
     (if value = JNull \<or> value = JUndefined \<or> value = JStr [] \<or> value = JStr (jstr ''NA'')
      then JNull
      else let num = h_Number h value in if num = NaN then JNull else JNum num)"

definition safeText_000 :: "host \<Rightarrow> jsval \<Rightarrow> jsval" where
  "safeText_000 h value =
     (if value = JNull \<or> value = JUndefined \<or> value = JStr [] \<or> value = JStr (jstr ''NA'')
      then JNull
      else JStr (trim (ToString h value)))"

definition safeDouble_000 :: "host \<Rightarrow> jsval \<Rightarrow> jsval" where
  "safeDouble_000 h value =
     (if value = JNull \<or> value = JUndefined \<or> value = JStr [] \<or> value = JStr (jstr ''NA'')
      then JNull
      else let num = h_parseFloat h value in if num = NaN then JNull else JNum num)"

section \<open>The play-by-play feed: fetching and parsing\<close>

text \<open>\<^verbatim>\<open>s.split(sep)\<close> with a separator of one code unit.\<close>

fun split_js :: "nat \<Rightarrow> jsstring \<Rightarrow> jsstring list" where
  "split_js sep [] = [[]]"
| "split_js sep (c # cs) =
     (if c = sep then [] # split_js sep cs
      else (case split_js sep cs of [] \<Rightarrow> [[c]] | piece # pieces \<Rightarrow> (c # piece) # pieces))"

text \<open>
  The tokenizer of a data line (the inner loop over \<^verbatim>\<open>lines[i][j]\<close>): 34 is the double quote
  and 44 the comma. The last equation is the \<^verbatim>\<open>values.push(current.trim())\<close> after the loop.
\<close>

fun valuesLoop :: "jsstring \<Rightarrow> jsstring list \<Rightarrow> jsstring \<Rightarrow> bool \<Rightarrow> jsstring list" where
  "valuesLoop (char # rest) values current inQuotes =
     (if char = 34 then valuesLoop rest values current (\<not> inQuotes)
      else if char = 44 \<and> \<not> inQuotes then valuesLoop rest (values @ [trim current]) [] inQuotes
      else valuesLoop rest values (current @ [char]) inQuotes)"
| "valuesLoop [] values current inQuotes = values @ [trim current]"

definition csvValues :: "jsstring \<Rightarrow> jsstring list" where
  "csvValues line = valuesLoop line [] [] False"

text \<open>An object with string keys: assigning a property replaces its value or appends the
  key; reading a property that is not there gives \<^verbatim>\<open>undefined\<close>. The rows are read only
  under the fixed column names of the programs, none of which \<^verbatim>\<open>Object.prototype\<close> has.\<close>

type_synonym obj = "(jsstring \<times> jsval) list"

fun setProp :: "jsstring \<Rightarrow> jsval \<Rightarrow> obj \<Rightarrow> obj" where
  "setProp k v [] = [(k, v)]"
| "setProp k v ((k', v') # ps) = (if k' = k then (k, v) # ps else (k', v') # setProp k v ps)"

definition getProp :: "obj \<Rightarrow> jsstring \<Rightarrow> jsval" where
  "getProp ob k = (case map_of ob k of None \<Rightarrow> JUndefined | Some v \<Rightarrow> v)"

text \<open>\<^verbatim>\<open>headers.forEach((header, index) => { row[header] = values[index] || null; })\<close>, run
  when both arrays have the same length.\<close>

definition makeRow :: "jsstring list \<Rightarrow> jsstring list \<Rightarrow> obj" where
  "makeRow headers values =
     foldl (\<lambda>row (header, v). setProp header (if v \<noteq> [] then JStr v else JNull) row) []
       (zip headers values)"

text \<open>\<^verbatim>\<open>lines[0].split(',').map(h => h.trim().replace(/"/g, ''))\<close>\<close>

definition parseHeaders :: "jsstring \<Rightarrow> jsstring list" where
  "parseHeaders line0 = map (\<lambda>h. filter (\<lambda>c. c \<noteq> 34) (trim h)) (split_js 44 line0)"

record parseState =
  st_pbpData :: "obj list"
  st_totalProcessed :: nat
  st_validPlays :: nat
  st_filteredOldPlays :: nat

text \<open>One turn of the loop over the data lines in \<^verbatim>\<open>index.js\<close>.\<close>

definition processLine :: "host \<Rightarrow> int option \<Rightarrow> jsstring list \<Rightarrow> parseState \<Rightarrow> jsstring \<Rightarrow> parseState" where
  "processLine h cutoffDate headers st0 line =
     (let st = st0\<lparr>st_totalProcessed := st_totalProcessed st0 + 1\<rparr>;
          values = csvValues line
      in if length values = length headers then
           (let row = makeRow headers values;
                gameDate = getProp row (jstr ''game_date'')
            in if truthy gameDate then
                 (let gameDateObj = newDate h gameDate
                  in if date_ge gameDateObj cutoffDate
                     then st\<lparr>st_validPlays := st_validPlays st + 1,
                             st_pbpData := st_pbpData st @ [row]\<rparr>
                     else st\<lparr>st_filteredOldPlays := st_filteredOldPlays st + 1\<rparr>)
               else st\<lparr>st_validPlays := st_validPlays st + 1,
                       st_pbpData := st_pbpData st @ [row]\<rparr>)
         else st)"

text \<open>The same turn in the second revision: it has no branch for a row without
  \<^verbatim>\<open>game_date\<close> and does not count the filtered rows.\<close>

definition processLine_000 :: "host \<Rightarrow> int option \<Rightarrow> jsstring list \<Rightarrow> parseState \<Rightarrow> jsstring \<Rightarrow> parseState" where
  "processLine_000 h cutoffDate headers st0 line =
     (let st = st0\<lparr>st_totalProcessed := st_totalProcessed st0 + 1\<rparr>;
          values = csvValues line
      in if length values = length headers then
           (let row = makeRow headers values;
                gameDate = getProp row (jstr ''game_date'')
            in if truthy gameDate then
                 (let gameDateObj = newDate h gameDate
                  in if date_ge gameDateObj cutoffDate
                     then st\<lparr>st_validPlays := st_validPlays st + 1,
                             st_pbpData := st_pbpData st @ [row]\<rparr>
                     else st)
               else st)
         else st)"

text \<open>
  The body of the \<^verbatim>\<open>try\<close> once the text of a response is there: \<open>None\<close> is the
  \<^verbatim>\<open>continue\<close> to the next source, \<open>Some\<close> the \<^verbatim>\<open>return pbpData\<close>.
\<close>

definition parseCsvText :: "host \<Rightarrow> int option \<Rightarrow> jsstring \<Rightarrow> obj list option" where
  "parseCsvText h cutoffDate csvText =
     (if csvText = [] \<or> length csvText < 10000 then None
      else let lines = filter (\<lambda>line. trim line \<noteq> []) (split_js 10 csvText)
           in if length lines < 2 then None
              else let headers = parseHeaders (hd lines) in
                Some (st_pbpData (foldl (processLine h cutoffDate headers)
                  \<lparr>st_pbpData = [], st_totalProcessed = 0, st_validPlays = 0,
                    st_filteredOldPlays = 0\<rparr> (tl lines))))"

definition parseCsvText_000 :: "host \<Rightarrow> int option \<Rightarrow> jsstring \<Rightarrow> obj list option" where
  "parseCsvText_000 h cutoffDate csvText =
     (if csvText = [] \<or> length csvText < 10000 then None
      else let lines = filter (\<lambda>line. trim line \<noteq> []) (split_js 10 csvText)
           in if length lines < 2 then None
              else let headers = parseHeaders (hd lines) in
                Some (st_pbpData (foldl (processLine_000 h cutoffDate headers)
                  \<lparr>st_pbpData = [], st_totalProcessed = 0, st_validPlays = 0,
                    st_filteredOldPlays = 0\<rparr> (tl lines))))"

text \<open>
  What a source answers: the fetch (or reading the body) throws, the response is not
  \<^verbatim>\<open>ok\<close>, or it is \<^verbatim>\<open>ok\<close> with a body. \<open>fetchAndParsePbp\<close> takes the answers of the sources
  in the order it tries them; \<open>None\<close> is its
  \<^verbatim>\<open>throw new Error(`Failed to fetch data from all ${sources.length} sources`)\<close>.
\<close>

datatype fetched = FetchThrew | NotOk | Body jsstring

fun fetchAndParsePbp :: "host \<Rightarrow> int option \<Rightarrow> fetched list \<Rightarrow> obj list option" where
  "fetchAndParsePbp h cutoffDate [] = None"
| "fetchAndParsePbp h cutoffDate (FetchThrew # sources) = fetchAndParsePbp h cutoffDate sources"
| "fetchAndParsePbp h cutoffDate (NotOk # sources) = fetchAndParsePbp h cutoffDate sources"
| "fetchAndParsePbp h cutoffDate (Body csvText # sources) =
     (case parseCsvText h cutoffDate csvText of
        None \<Rightarrow> fetchAndParsePbp h cutoffDate sources
      | Some rows \<Rightarrow> Some rows)"

fun fetchAndParsePbp_000 :: "host \<Rightarrow> int option \<Rightarrow> fetched list \<Rightarrow> obj list option" where
  "fetchAndParsePbp_000 h cutoffDate [] = None"
| "fetchAndParsePbp_000 h cutoffDate (FetchThrew # sources) = fetchAndParsePbp_000 h cutoffDate sources"
| "fetchAndParsePbp_000 h cutoffDate (NotOk # sources) = fetchAndParsePbp_000 h cutoffDate sources"
| "fetchAndParsePbp_000 h cutoffDate (Body csvText # sources) =
     (case parseCsvText_000 h cutoffDate csvText of
        None \<Rightarrow> fetchAndParsePbp_000 h cutoffDate sources
      | Some rows \<Rightarrow> Some rows)"

section \<open>The play-by-play feed: transformation\<close>

text \<open>
  The object literal pushed to \<^verbatim>\<open>transformedPlays\<close> has 372 properties, each of the form
  \<^verbatim>\<open>column: safeX(play.column)\<close>. The table lists them in the order of the source with the
  helper each one uses; the two revisions have the same columns and differ in the helpers.
\<close>

datatype coercion = Numeric | Text | Double

definition columns :: "(string \<times> coercion) list" where
  "columns =
    [(''play_id'', Numeric), (''game_id'', Text), (''old_game_id'', Numeric),
     (''home_team'', Text), (''away_team'', Text), (''season_type'', Text), (''week'', Numeric),
     (''posteam'', Text), (''posteam_type'', Text), (''defteam'', Text),
     (''side_of_field'', Text), (''yardline_100'', Text), (''game_date'', Text),
     (''quarter_seconds_remaining'', Text), (''half_seconds_remaining'', Text),
     (''game_seconds_remaining'', Numeric), (''game_half'', Text), (''quarter_end'', Text),
     (''drive'', Text), (''sp'', Text), (''qtr'', Numeric), (''down'', Text),
     (''goal_to_go'', Text), (''time'', Text), (''yrdln'', Text), (''ydstogo'', Text),
     (''ydsnet'', Text), (''desc'', Text), (''play_type'', Text), (''yards_gained'', Text),
     (''shotgun'', Text), (''no_huddle'', Text), (''qb_dropback'', Text), (''qb_kneel'', Text),
     (''qb_spike'', Text), (''qb_scramble'', Text), (''pass_length'', Text),
     (''pass_location'', Text), (''air_yards'', Text), (''yards_after_catch'', Text),
     (''run_location'', Text), (''run_gap'', Text), (''field_goal_result'', Text),
     (''kick_distance'', Text), (''extra_point_result'', Text),
     (''two_point_conv_result'', Text), (''home_timeouts_remaining'', Text),
     (''away_timeouts_remaining'', Text), (''timeout'', Text), (''timeout_team'', Text),
     (''td_team'', Text), (''td_player_name'', Text), (''td_player_id'', Text),
     (''posteam_timeouts_remaining'', Text), (''defteam_timeouts_remaining'', Text),
     (''total_home_score'', Text), (''total_away_score'', Text), (''posteam_score'', Text),
     (''defteam_score'', Text), (''score_differential'', Text), (''posteam_score_post'', Text),
     (''defteam_score_post'', Text), (''score_differential_post'', Text),
     (''no_score_prob'', Text), (''opp_fg_prob'', Text), (''opp_safety_prob'', Text),
     (''opp_td_prob'', Text), (''fg_prob'', Text), (''safety_prob'', Text), (''td_prob'', Text),
     (''extra_point_prob'', Text), (''two_point_conversion_prob'', Text), (''ep'', Text),
     (''epa'', Text), (''total_home_epa'', Text), (''total_away_epa'', Text),
     (''total_home_rush_epa'', Text), (''total_away_rush_epa'', Text),
     (''total_home_pass_epa'', Text), (''total_away_pass_epa'', Text), (''air_epa'', Text),
     (''yac_epa'', Text), (''comp_air_epa'', Text), (''comp_yac_epa'', Text),
     (''total_home_comp_air_epa'', Text), (''total_away_comp_air_epa'', Text),
     (''total_home_comp_yac_epa'', Text), (''total_away_comp_yac_epa'', Text),
     (''total_home_raw_air_epa'', Text), (''total_away_raw_air_epa'', Text),
     (''total_home_raw_yac_epa'', Text), (''total_away_raw_yac_epa'', Text), (''wp'', Double),
     (''def_wp'', Double), (''home_wp'', Double), (''away_wp'', Double), (''vegas_wp'', Double),
     (''vegas_home_wp'', Double), (''wpa'', Text), (''vegas_wpa'', Text),
     (''vegas_home_wpa'', Text), (''home_wp_post'', Text), (''away_wp_post'', Text),
     (''total_home_rush_wpa'', Text), (''total_away_rush_wpa'', Text),
     (''total_home_pass_wpa'', Text), (''total_away_pass_wpa'', Text), (''air_wpa'', Text),
     (''yac_wpa'', Text), (''comp_air_wpa'', Text), (''comp_yac_wpa'', Text),
     (''total_home_comp_air_wpa'', Text), (''total_away_comp_air_wpa'', Text),
     (''total_home_comp_yac_wpa'', Text), (''total_away_comp_yac_wpa'', Text),
     (''total_home_raw_air_wpa'', Text), (''total_away_raw_air_wpa'', Text),
     (''total_home_raw_yac_wpa'', Text), (''total_away_raw_yac_wpa'', Text),
     (''punt_blocked'', Text), (''first_down_rush'', Text), (''first_down_pass'', Text),
     (''first_down_penalty'', Text), (''third_down_converted'', Text),
     (''third_down_failed'', Text), (''fourth_down_converted'', Text),
     (''fourth_down_failed'', Text), (''incomplete_pass'', Text), (''touchback'', Text),
     (''interception'', Text), (''punt_inside_twenty'', Text), (''punt_in_endzone'', Text),
     (''punt_out_of_bounds'', Text), (''punt_downed'', Text), (''punt_fair_catch'', Text),
     (''kickoff_inside_twenty'', Text), (''kickoff_in_endzone'', Text),
     (''kickoff_out_of_bounds'', Text), (''kickoff_downed'', Text),
     (''kickoff_fair_catch'', Text), (''fumble_forced'', Text), (''fumble_not_forced'', Text),
     (''fumble_out_of_bounds'', Text), (''solo_tackle'', Text), (''safety'', Text),
     (''penalty'', Text), (''tackled_for_loss'', Text), (''fumble_lost'', Text),
     (''own_kickoff_recovery'', Text), (''own_kickoff_recovery_td'', Text), (''qb_hit'', Text),
     (''rush_attempt'', Text), (''pass_attempt'', Text), (''sack'', Text), (''touchdown'', Text),
     (''pass_touchdown'', Text), (''rush_touchdown'', Text), (''return_touchdown'', Text),
     (''extra_point_attempt'', Text), (''two_point_attempt'', Text),
     (''field_goal_attempt'', Text), (''kickoff_attempt'', Text), (''punt_attempt'', Text),
     (''fumble'', Text), (''complete_pass'', Text), (''assist_tackle'', Text),
     (''lateral_reception'', Text), (''lateral_rush'', Text), (''lateral_return'', Text),
     (''lateral_recovery'', Text), (''passer_player_id'', Text), (''passer_player_name'', Text),
     (''passing_yards'', Text), (''receiver_player_id'', Text), (''receiver_player_name'', Text),
     (''receiving_yards'', Text), (''rusher_player_id'', Text), (''rusher_player_name'', Text),
     (''rushing_yards'', Text), (''lateral_receiver_player_id'', Text),
     (''lateral_receiver_player_name'', Text), (''lateral_receiving_yards'', Text),
     (''lateral_rusher_player_id'', Text), (''lateral_rusher_player_name'', Text),
     (''lateral_rushing_yards'', Text), (''lateral_sack_player_id'', Text),
     (''lateral_sack_player_name'', Text), (''interception_player_id'', Text),
     (''interception_player_name'', Text), (''lateral_interception_player_id'', Text),
     (''lateral_interception_player_name'', Text), (''punt_returner_player_id'', Text),
     (''punt_returner_player_name'', Text), (''lateral_punt_returner_player_id'', Text),
     (''lateral_punt_returner_player_name'', Text), (''kickoff_returner_player_name'', Text),
     (''kickoff_returner_player_id'', Text), (''lateral_kickoff_returner_player_id'', Text),
     (''lateral_kickoff_returner_player_name'', Text), (''punter_player_id'', Text),
     (''punter_player_name'', Text), (''kicker_player_name'', Text),
     (''kicker_player_id'', Text), (''own_kickoff_recovery_player_id'', Text),
     (''own_kickoff_recovery_player_name'', Text), (''blocked_player_id'', Text),
     (''blocked_player_name'', Text), (''tackle_for_loss_1_player_id'', Text),
     (''tackle_for_loss_1_player_name'', Text), (''tackle_for_loss_2_player_id'', Text),
     (''tackle_for_loss_2_player_name'', Text), (''qb_hit_1_player_id'', Text),
     (''qb_hit_1_player_name'', Text), (''qb_hit_2_player_id'', Text),
     (''qb_hit_2_player_name'', Text), (''forced_fumble_player_1_team'', Text),
     (''forced_fumble_player_1_player_id'', Text),
     (''forced_fumble_player_1_player_name'', Text), (''forced_fumble_player_2_team'', Text),
     (''forced_fumble_player_2_player_id'', Text),
     (''forced_fumble_player_2_player_name'', Text), (''solo_tackle_1_team'', Text),
     (''solo_tackle_2_team'', Text), (''solo_tackle_1_player_id'', Text),
     (''solo_tackle_2_player_id'', Text), (''solo_tackle_1_player_name'', Text),
     (''solo_tackle_2_player_name'', Text), (''assist_tackle_1_player_id'', Text),
     (''assist_tackle_1_player_name'', Text), (''assist_tackle_1_team'', Text),
     (''assist_tackle_2_player_id'', Text), (''assist_tackle_2_player_name'', Text),
     (''assist_tackle_2_team'', Text), (''assist_tackle_3_player_id'', Text),
     (''assist_tackle_3_player_name'', Text), (''assist_tackle_3_team'', Text),
     (''assist_tackle_4_player_id'', Text), (''assist_tackle_4_player_name'', Text),
     (''assist_tackle_4_team'', Text), (''tackle_with_assist'', Text),
     (''tackle_with_assist_1_player_id'', Text), (''tackle_with_assist_1_player_name'', Text),
     (''tackle_with_assist_1_team'', Text), (''tackle_with_assist_2_player_id'', Text),
     (''tackle_with_assist_2_player_name'', Text), (''tackle_with_assist_2_team'', Text),
     (''pass_defense_1_player_id'', Text), (''pass_defense_1_player_name'', Text),
     (''pass_defense_2_player_id'', Text), (''pass_defense_2_player_name'', Text),
     (''fumbled_1_team'', Text), (''fumbled_1_player_id'', Text),
     (''fumbled_1_player_name'', Text), (''fumbled_2_player_id'', Text),
     (''fumbled_2_player_name'', Text), (''fumbled_2_team'', Text),
     (''fumble_recovery_1_team'', Text), (''fumble_recovery_1_yards'', Text),
     (''fumble_recovery_1_player_id'', Text), (''fumble_recovery_1_player_name'', Text),
     (''fumble_recovery_2_team'', Text), (''fumble_recovery_2_yards'', Text),
     (''fumble_recovery_2_player_id'', Text), (''fumble_recovery_2_player_name'', Text),
     (''sack_player_id'', Text), (''sack_player_name'', Text), (''half_sack_1_player_id'', Text),
     (''half_sack_1_player_name'', Text), (''half_sack_2_player_id'', Text),
     (''half_sack_2_player_name'', Text), (''return_team'', Text), (''return_yards'', Text),
     (''penalty_team'', Text), (''penalty_player_id'', Text), (''penalty_player_name'', Text),
     (''penalty_yards'', Text), (''replay_or_challenge'', Text),
     (''replay_or_challenge_result'', Text), (''penalty_type'', Text),
     (''defensive_two_point_attempt'', Text), (''defensive_two_point_conv'', Text),
     (''defensive_extra_point_attempt'', Text), (''defensive_extra_point_conv'', Text),
     (''safety_player_name'', Text), (''safety_player_id'', Text), (''season'', Numeric),
     (''cp'', Text), (''cpoe'', Text), (''series'', Numeric), (''series_success'', Text),
     (''series_result'', Text), (''order_sequence'', Numeric), (''start_time'', Text),
     (''time_of_day'', Text), (''stadium'', Text), (''weather'', Text), (''nfl_api_id'', Text),
     (''play_clock'', Text), (''play_deleted'', Text), (''play_type_nfl'', Text),
     (''special_teams_play'', Text), (''st_play_type'', Text), (''end_clock_time'', Text),
     (''end_yard_line'', Text), (''fixed_drive'', Numeric), (''fixed_drive_result'', Text),
     (''drive_real_start_time'', Text), (''drive_play_count'', Text),
     (''drive_time_of_possession'', Text), (''drive_first_downs'', Text),
     (''drive_inside20'', Text), (''drive_ended_with_score'', Text),
     (''drive_quarter_start'', Text), (''drive_quarter_end'', Text),
     (''drive_yards_penalized'', Text), (''drive_start_transition'', Text),
     (''drive_end_transition'', Text), (''drive_game_clock_start'', Text),
     (''drive_game_clock_end'', Text), (''drive_start_yard_line'', Text),
     (''drive_end_yard_line'', Text), (''drive_play_id_started'', Text),
     (''drive_play_id_ended'', Text), (''away_score'', Text), (''home_score'', Numeric),
     (''location'', Text), (''result'', Numeric), (''total'', Numeric), (''spread_line'', Text),
     (''total_line'', Text), (''div_game'', Text), (''roof'', Text), (''surface'', Text),
     (''temp'', Text), (''wind'', Text), (''home_coach'', Text), (''away_coach'', Text),
     (''stadium_id'', Text), (''game_stadium'', Text), (''aborted_play'', Text),
     (''success'', Text), (''passer'', Text), (''passer_jersey_number'', Text),
     (''rusher'', Text), (''rusher_jersey_number'', Text), (''receiver'', Text),
     (''receiver_jersey_number'', Text), (''pass'', Text), (''rush'', Text),
     (''first_down'', Text), (''special'', Text), (''play'', Text), (''passer_id'', Text),
     (''rusher_id'', Text), (''receiver_id'', Text), (''name'', Text), (''jersey_number'', Text),
     (''id'', Text), (''fantasy_player_name'', Text), (''fantasy_player_id'', Text),
     (''fantasy'', Text), (''fantasy_id'', Text), (''out_of_bounds'', Text),
     (''home_opening_kickoff'', Text), (''qb_epa'', Text), (''xyac_epa'', Text),
     (''xyac_mean_yardage'', Text), (''xyac_median_yardage'', Text), (''xyac_success'', Text),
     (''xyac_fd'', Text), (''xpass'', Text), (''pass_oe'', Text)]"

definition columns_000 :: "(string \<times> coercion) list" where
  "columns_000 =
    [(''play_id'', Numeric), (''game_id'', Text), (''old_game_id'', Numeric),
     (''home_team'', Text), (''away_team'', Text), (''season_type'', Text), (''week'', Numeric),
     (''posteam'', Text), (''posteam_type'', Text), (''defteam'', Text),
     (''side_of_field'', Text), (''yardline_100'', Numeric), (''game_date'', Text),
     (''quarter_seconds_remaining'', Numeric), (''half_seconds_remaining'', Numeric),
     (''game_seconds_remaining'', Numeric), (''game_half'', Text), (''quarter_end'', Numeric),
     (''drive'', Numeric), (''sp'', Numeric), (''qtr'', Numeric), (''down'', Numeric),
     (''goal_to_go'', Numeric), (''time'', Text), (''yrdln'', Text), (''ydstogo'', Numeric),
     (''ydsnet'', Numeric), (''desc'', Text), (''play_type'', Text), (''yards_gained'', Numeric),
     (''shotgun'', Numeric), (''no_huddle'', Numeric), (''qb_dropback'', Numeric),
     (''qb_kneel'', Numeric), (''qb_spike'', Numeric), (''qb_scramble'', Numeric),
     (''pass_length'', Text), (''pass_location'', Text), (''air_yards'', Numeric),
     (''yards_after_catch'', Numeric), (''run_location'', Text), (''run_gap'', Text),
     (''field_goal_result'', Text), (''kick_distance'', Numeric), (''extra_point_result'', Text),
     (''two_point_conv_result'', Text), (''home_timeouts_remaining'', Numeric),
     (''away_timeouts_remaining'', Numeric), (''timeout'', Numeric), (''timeout_team'', Text),
     (''td_team'', Text), (''td_player_name'', Text), (''td_player_id'', Text),
     (''posteam_timeouts_remaining'', Numeric), (''defteam_timeouts_remaining'', Numeric),
     (''total_home_score'', Numeric), (''total_away_score'', Numeric),
     (''posteam_score'', Numeric), (''defteam_score'', Numeric),
     (''score_differential'', Numeric), (''posteam_score_post'', Numeric),
     (''defteam_score_post'', Numeric), (''score_differential_post'', Numeric),
     (''no_score_prob'', Double), (''opp_fg_prob'', Double), (''opp_safety_prob'', Double),
     (''opp_td_prob'', Double), (''fg_prob'', Double), (''safety_prob'', Double),
     (''td_prob'', Double), (''extra_point_prob'', Double),
     (''two_point_conversion_prob'', Double), (''ep'', Double), (''epa'', Double),
     (''total_home_epa'', Double), (''total_away_epa'', Double),
     (''total_home_rush_epa'', Double), (''total_away_rush_epa'', Double),
     (''total_home_pass_epa'', Double), (''total_away_pass_epa'', Double), (''air_epa'', Double),
     (''yac_epa'', Double), (''comp_air_epa'', Double), (''comp_yac_epa'', Double),
     (''total_home_comp_air_epa'', Double), (''total_away_comp_air_epa'', Double),
     (''total_home_comp_yac_epa'', Double), (''total_away_comp_yac_epa'', Double),
     (''total_home_raw_air_epa'', Double), (''total_away_raw_air_epa'', Double),
     (''total_home_raw_yac_epa'', Double), (''total_away_raw_yac_epa'', Double),
     (''wp'', Double), (''def_wp'', Double), (''home_wp'', Double), (''away_wp'', Double),
     (''vegas_wp'', Double), (''vegas_home_wp'', Double), (''wpa'', Double),
     (''vegas_wpa'', Double), (''vegas_home_wpa'', Double), (''home_wp_post'', Double),
     (''away_wp_post'', Double), (''total_home_rush_wpa'', Double),
     (''total_away_rush_wpa'', Double), (''total_home_pass_wpa'', Double),
     (''total_away_pass_wpa'', Double), (''air_wpa'', Double), (''yac_wpa'', Double),
     (''comp_air_wpa'', Double), (''comp_yac_wpa'', Double),
     (''total_home_comp_air_wpa'', Double), (''total_away_comp_air_wpa'', Double),
     (''total_home_comp_yac_wpa'', Double), (''total_away_comp_yac_wpa'', Double),
     (''total_home_raw_air_wpa'', Double), (''total_away_raw_air_wpa'', Double),
     (''total_home_raw_yac_wpa'', Double), (''total_away_raw_yac_wpa'', Double),
     (''punt_blocked'', Text), (''first_down_rush'', Text), (''first_down_pass'', Text),
     (''first_down_penalty'', Text), (''third_down_converted'', Text),
     (''third_down_failed'', Text), (''fourth_down_converted'', Text),
     (''fourth_down_failed'', Text), (''incomplete_pass'', Text), (''touchback'', Text),
     (''interception'', Text), (''punt_inside_twenty'', Text), (''punt_in_endzone'', Text),
     (''punt_out_of_bounds'', Text), (''punt_downed'', Text), (''punt_fair_catch'', Text),
     (''kickoff_inside_twenty'', Text), (''kickoff_in_endzone'', Text),
     (''kickoff_out_of_bounds'', Text), (''kickoff_downed'', Text),
     (''kickoff_fair_catch'', Text), (''fumble_forced'', Text), (''fumble_not_forced'', Text),
     (''fumble_out_of_bounds'', Text), (''solo_tackle'', Text), (''safety'', Text),
     (''penalty'', Text), (''tackled_for_loss'', Text), (''fumble_lost'', Text),
     (''own_kickoff_recovery'', Text), (''own_kickoff_recovery_td'', Text), (''qb_hit'', Text),
     (''rush_attempt'', Text), (''pass_attempt'', Text), (''sack'', Text), (''touchdown'', Text),
     (''pass_touchdown'', Text), (''rush_touchdown'', Text), (''return_touchdown'', Text),
     (''extra_point_attempt'', Text), (''two_point_attempt'', Text),
     (''field_goal_attempt'', Text), (''kickoff_attempt'', Text), (''punt_attempt'', Text),
     (''fumble'', Text), (''complete_pass'', Text), (''assist_tackle'', Text),
     (''lateral_reception'', Text), (''lateral_rush'', Text), (''lateral_return'', Text),
     (''lateral_recovery'', Text), (''passer_player_id'', Text), (''passer_player_name'', Text),
     (''passing_yards'', Numeric), (''receiver_player_id'', Text),
     (''receiver_player_name'', Text), (''receiving_yards'', Numeric),
     (''rusher_player_id'', Text), (''rusher_player_name'', Text), (''rushing_yards'', Numeric),
     (''lateral_receiver_player_id'', Text), (''lateral_receiver_player_name'', Text),
     (''lateral_receiving_yards'', Numeric), (''lateral_rusher_player_id'', Text),
     (''lateral_rusher_player_name'', Text), (''lateral_rushing_yards'', Numeric),
     (''lateral_sack_player_id'', Text), (''lateral_sack_player_name'', Text),
     (''interception_player_id'', Text), (''interception_player_name'', Text),
     (''lateral_interception_player_id'', Text), (''lateral_interception_player_name'', Text),
     (''punt_returner_player_id'', Text), (''punt_returner_player_name'', Text),
     (''lateral_punt_returner_player_id'', Text), (''lateral_punt_returner_player_name'', Text),
     (''kickoff_returner_player_name'', Text), (''kickoff_returner_player_id'', Text),
     (''lateral_kickoff_returner_player_id'', Text),
     (''lateral_kickoff_returner_player_name'', Text), (''punter_player_id'', Text),
     (''punter_player_name'', Text), (''kicker_player_name'', Text),
     (''kicker_player_id'', Text), (''own_kickoff_recovery_player_id'', Text),
     (''own_kickoff_recovery_player_name'', Text), (''blocked_player_id'', Text),
     (''blocked_player_name'', Text), (''tackle_for_loss_1_player_id'', Text),
     (''tackle_for_loss_1_player_name'', Text), (''tackle_for_loss_2_player_id'', Text),
     (''tackle_for_loss_2_player_name'', Text), (''qb_hit_1_player_id'', Text),
     (''qb_hit_1_player_name'', Text), (''qb_hit_2_player_id'', Text),
     (''qb_hit_2_player_name'', Text), (''forced_fumble_player_1_team'', Text),
     (''forced_fumble_player_1_player_id'', Text),
     (''forced_fumble_player_1_player_name'', Text), (''forced_fumble_player_2_team'', Text),
     (''forced_fumble_player_2_player_id'', Text),
     (''forced_fumble_player_2_player_name'', Text), (''solo_tackle_1_team'', Text),
     (''solo_tackle_2_team'', Text), (''solo_tackle_1_player_id'', Text),
     (''solo_tackle_2_player_id'', Text), (''solo_tackle_1_player_name'', Text),
     (''solo_tackle_2_player_name'', Text), (''assist_tackle_1_player_id'', Text),
     (''assist_tackle_1_player_name'', Text), (''assist_tackle_1_team'', Text),
     (''assist_tackle_2_player_id'', Text), (''assist_tackle_2_player_name'', Text),
     (''assist_tackle_2_team'', Text), (''assist_tackle_3_player_id'', Text),
     (''assist_tackle_3_player_name'', Text), (''assist_tackle_3_team'', Text),
     (''assist_tackle_4_player_id'', Text), (''assist_tackle_4_player_name'', Text),
     (''assist_tackle_4_team'', Text), (''tackle_with_assist'', Text),
     (''tackle_with_assist_1_player_id'', Text), (''tackle_with_assist_1_player_name'', Text),
     (''tackle_with_assist_1_team'', Text), (''tackle_with_assist_2_player_id'', Text),
     (''tackle_with_assist_2_player_name'', Text), (''tackle_with_assist_2_team'', Text),
     (''pass_defense_1_player_id'', Text), (''pass_defense_1_player_name'', Text),
     (''pass_defense_2_player_id'', Text), (''pass_defense_2_player_name'', Text),
     (''fumbled_1_team'', Text), (''fumbled_1_player_id'', Text),
     (''fumbled_1_player_name'', Text), (''fumbled_2_player_id'', Text),
     (''fumbled_2_player_name'', Text), (''fumbled_2_team'', Text),
     (''fumble_recovery_1_team'', Text), (''fumble_recovery_1_yards'', Numeric),
     (''fumble_recovery_1_player_id'', Text), (''fumble_recovery_1_player_name'', Text),
     (''fumble_recovery_2_team'', Text), (''fumble_recovery_2_yards'', Numeric),
     (''fumble_recovery_2_player_id'', Text), (''fumble_recovery_2_player_name'', Text),
     (''sack_player_id'', Text), (''sack_player_name'', Text), (''half_sack_1_player_id'', Text),
     (''half_sack_1_player_name'', Text), (''half_sack_2_player_id'', Text),
     (''half_sack_2_player_name'', Text), (''return_team'', Text), (''return_yards'', Numeric),
     (''penalty_team'', Text), (''penalty_player_id'', Text), (''penalty_player_name'', Text),
     (''penalty_yards'', Numeric), (''replay_or_challenge'', Text),
     (''replay_or_challenge_result'', Text), (''penalty_type'', Text),
     (''defensive_two_point_attempt'', Text), (''defensive_two_point_conv'', Text),
     (''defensive_extra_point_attempt'', Text), (''defensive_extra_point_conv'', Text),
     (''safety_player_name'', Text), (''safety_player_id'', Text), (''season'', Numeric),
     (''cp'', Double), (''cpoe'', Double), (''series'', Numeric), (''series_success'', Text),
     (''series_result'', Text), (''order_sequence'', Numeric), (''start_time'', Text),
     (''time_of_day'', Text), (''stadium'', Text), (''weather'', Text), (''nfl_api_id'', Text),
     (''play_clock'', Numeric), (''play_deleted'', Text), (''play_type_nfl'', Text),
     (''special_teams_play'', Text), (''st_play_type'', Text), (''end_clock_time'', Text),
     (''end_yard_line'', Text), (''fixed_drive'', Numeric), (''fixed_drive_result'', Text),
     (''drive_real_start_time'', Text), (''drive_play_count'', Numeric),
     (''drive_time_of_possession'', Text), (''drive_first_downs'', Numeric),
     (''drive_inside20'', Text), (''drive_ended_with_score'', Text),
     (''drive_quarter_start'', Numeric), (''drive_quarter_end'', Numeric),
     (''drive_yards_penalized'', Numeric), (''drive_start_transition'', Text),
     (''drive_end_transition'', Text), (''drive_game_clock_start'', Text),
     (''drive_game_clock_end'', Text), (''drive_start_yard_line'', Text),
     (''drive_end_yard_line'', Text), (''drive_play_id_started'', Text),
     (''drive_play_id_ended'', Text), (''away_score'', Numeric), (''home_score'', Numeric),
     (''location'', Text), (''result'', Numeric), (''total'', Numeric),
     (''spread_line'', Double), (''total_line'', Double), (''div_game'', Text), (''roof'', Text),
     (''surface'', Text), (''temp'', Numeric), (''wind'', Numeric), (''home_coach'', Text),
     (''away_coach'', Text), (''stadium_id'', Text), (''game_stadium'', Text),
     (''aborted_play'', Text), (''success'', Text), (''passer'', Text),
     (''passer_jersey_number'', Text), (''rusher'', Text), (''rusher_jersey_number'', Text),
     (''receiver'', Text), (''receiver_jersey_number'', Text), (''pass'', Text),
     (''rush'', Text), (''first_down'', Text), (''special'', Text), (''play'', Text),
     (''passer_id'', Text), (''rusher_id'', Text), (''receiver_id'', Text), (''name'', Text),
     (''jersey_number'', Text), (''id'', Text), (''fantasy_player_name'', Text),
     (''fantasy_player_id'', Text), (''fantasy'', Text), (''fantasy_id'', Text),
     (''out_of_bounds'', Text), (''home_opening_kickoff'', Text), (''qb_epa'', Double),
     (''xyac_epa'', Double), (''xyac_mean_yardage'', Double), (''xyac_median_yardage'', Double),
     (''xyac_success'', Double), (''xyac_fd'', Double), (''xpass'', Double),
     (''pass_oe'', Double)]"

definition transformPlay :: "host \<Rightarrow> obj \<Rightarrow> obj" where
  "transformPlay h play =
     map (\<lambda>(column, c).
            (jstr column,
             (case c of Numeric \<Rightarrow> safeNumeric h | Text \<Rightarrow> safeText h | Double \<Rightarrow> safeDouble h)
               (getProp play (jstr column))))
       columns"

definition transformPlay_000 :: "host \<Rightarrow> obj \<Rightarrow> obj" where
  "transformPlay_000 h play =
     map (\<lambda>(column, c).
            (jstr column,
             (case c of Numeric \<Rightarrow> safeNumeric_000 h | Text \<Rightarrow> safeText_000 h
                      | Double \<Rightarrow> safeDouble_000 h)
               (getProp play (jstr column))))
       columns_000"

record skippedPlay =
  gameId :: jsval
  playId :: jsval
  reasons :: "jsstring list"

text \<open>One turn of the loop \<^verbatim>\<open>for (const play of pbpData)\<close> in \<^verbatim>\<open>index.js\<close>: the validation,
  then either the entry of \<^verbatim>\<open>skippedPlays\<close> or the transformed play.\<close>

definition transformStep :: "host \<Rightarrow> obj list \<times> skippedPlay list \<Rightarrow> obj \<Rightarrow> obj list \<times> skippedPlay list" where
  "transformStep h acc play =
     (let transformedPlays = fst acc; skippedPlays = snd acc;
          game_id = getProp play (jstr ''game_id'');
          play_id = getProp play (jstr ''play_id'');
          skipReasons = (if \<not> truthy game_id then [jstr ''Missing game_id''] else [])
                      @ (if \<not> truthy play_id then [jstr ''Missing play_id''] else [])
      in if skipReasons \<noteq> []
         then (transformedPlays,
               skippedPlays @
                 [\<lparr> gameId = (if truthy game_id then game_id else JStr (jstr ''Unknown'')),
                    playId = (if truthy play_id then play_id else JStr (jstr ''Unknown'')),
                    reasons = skipReasons \<rparr>])
         else (transformedPlays @ [transformPlay h play], skippedPlays))"

definition transformPlays :: "host \<Rightarrow> obj list \<Rightarrow> obj list \<times> skippedPlay list" where
  "transformPlays h rows = foldl (transformStep h) ([], []) rows"

text \<open>The second revision: \<^verbatim>\<open>if (!play.game_id || !play.play_id) continue;\<close>\<close>

definition transformStep_000 :: "host \<Rightarrow> obj list \<Rightarrow> obj \<Rightarrow> obj list" where
  "transformStep_000 h transformedPlays play =
     (if \<not> truthy (getProp play (jstr ''game_id'')) \<or> \<not> truthy (getProp play (jstr ''play_id''))
      then transformedPlays
      else transformedPlays @ [transformPlay_000 h play])"

definition transformPlays_000 :: "host \<Rightarrow> obj list \<Rightarrow> obj list" where
  "transformPlays_000 h rows = foldl (transformStep_000 h) [] rows"

section \<open>The play-by-play feed: database update and the run\<close>

text \<open>
  The persistence collaborator. \<^verbatim>\<open>supabase.from(...).upsert(batch, ...)\<close> resolves to an
  object whose \<^verbatim>\<open>error\<close> is null or carries a message, or the call throws. The collaborator
  is a function of the number of the batch and the batch, which covers every sequence of
  answers a run can meet; the batches submitted are logged in the order of the calls.
\<close>

datatype upsertResult = UpsertOk | UpsertError jsstring | UpsertThrew jsstring

text \<open>An entry of \<^verbatim>\<open>updateResults.errors\<close>: \<^verbatim>\<open>`Batch ${batchNum}: ${upsertError.message}`\<close> or
  \<^verbatim>\<open>`Update exception: ${error.message}`\<close>, kept as its parts.\<close>

datatype updateError = BatchError nat jsstring | UpdateException jsstring

record updateResults =
  attempted :: nat
  successful :: nat
  failed :: nat
  errors :: "updateError list"

text \<open>
  The loop \<^verbatim>\<open>for (let i = 0; i < transformedPlays.length; i += batchSize)\<close> with its
  \<^verbatim>\<open>totalProcessed\<close>, the errors pushed so far and the log of the calls; the second component
  of the result is the message of an exception that left the loop. The pause between two
  batches is time only and is not modelled.
\<close>

function batchLoop :: "(nat \<Rightarrow> obj list \<Rightarrow> upsertResult) \<Rightarrow> obj list \<Rightarrow> nat \<Rightarrow> nat \<Rightarrow> updateError list \<Rightarrow> obj list list
    \<Rightarrow> (nat \<times> updateError list \<times> obj list list) \<times> jsstring option" where
  "batchLoop upsert transformedPlays i totalProcessed errs calls =
     (if i < length transformedPlays then
        (let batch = take 100 (drop i transformedPlays);
             batchNum = i div 100 + 1
         in case upsert batchNum batch of
              UpsertOk \<Rightarrow>
                batchLoop upsert transformedPlays (i + 100) (totalProcessed + length batch) errs
                  (calls @ [batch])
            | UpsertError message \<Rightarrow>
                batchLoop upsert transformedPlays (i + 100) totalProcessed
                  (errs @ [BatchError batchNum message]) (calls @ [batch])
            | UpsertThrew message \<Rightarrow> ((totalProcessed, errs, calls @ [batch]), Some message))
      else ((totalProcessed, errs, calls), None))"
  by pat_completeness auto
termination
  by (relation "measure (\<lambda>(upsert, transformedPlays, i, rest). length transformedPlays - i)") auto

declare batchLoop.simps [simp del]

text \<open>The \<^verbatim>\<open>else\<close> branch of \<^verbatim>\<open>if (testMode)\<close>: the loop inside its \<^verbatim>\<open>try\<close>, and the
  \<^verbatim>\<open>catch\<close>. The result is \<^verbatim>\<open>updateResults\<close> and the log of the calls.\<close>

definition updateDatabase :: "(nat \<Rightarrow> obj list \<Rightarrow> upsertResult) \<Rightarrow> obj list \<Rightarrow> updateResults \<times> obj list list" where
  "updateDatabase upsert transformedPlays =
     (case batchLoop upsert transformedPlays 0 0 [] [] of
        ((totalProcessed, errs, calls), None) \<Rightarrow>
          (\<lparr> attempted = length transformedPlays, successful = totalProcessed,
             failed = length transformedPlays - totalProcessed, errors = errs \<rparr>, calls)
      | ((totalProcessed, errs, calls), Some message) \<Rightarrow>
          (\<lparr> attempted = length transformedPlays, successful = 0,
             failed = length transformedPlays, errors = errs @ [UpdateException message] \<rparr>,
           calls))"

text \<open>
  The module-level state of \<^verbatim>\<open>index.js\<close>: the \<^verbatim>\<open>--test\<close> flag and the time value of
  \<^verbatim>\<open>now = new Date()\<close>, from which the season window and the cut-off are computed.
\<close>

record config =
  testMode :: bool
  now :: int

definition currentYear :: "host \<Rightarrow> config \<Rightarrow> int" where
  "currentYear h cfg = YearFromTime (now cfg + h_LocalTZA h (now cfg))"

definition nflSeasonStart :: "host \<Rightarrow> config \<Rightarrow> int option" where
  "nflSeasonStart h cfg =
     newDate h (JStr (ToString h (JNum (Fin (of_int (currentYear h cfg)))) @ jstr ''-09-05''))"

definition nflSeasonEnd :: "host \<Rightarrow> config \<Rightarrow> int option" where
  "nflSeasonEnd h cfg =
     newDate h (JStr (ToString h (JNum (Fin (of_int (currentYear h cfg + 1)))) @ jstr ''-02-15''))"

definition inNflSeason :: "host \<Rightarrow> config \<Rightarrow> bool" where
  "inNflSeason h cfg =
     (date_ge (Some (now cfg)) (nflSeasonStart h cfg) \<and> date_le (Some (now cfg)) (nflSeasonEnd h cfg))"

definition cutoffDate :: "config \<Rightarrow> int option" where
  "cutoffDate cfg = TimeClip (now cfg - 7 * 24 * 60 * 60 * 1000)"

text \<open>The second revision fixes the season window.\<close>

definition inNflSeason_000 :: "host \<Rightarrow> config \<Rightarrow> bool" where
  "inNflSeason_000 h cfg =
     (date_ge (Some (now cfg)) (newDate h (JStr (jstr ''2025-09-04'')))
      \<and> date_le (Some (now cfg)) (newDate h (JStr (jstr ''2026-02-15''))))"

text \<open>What \<^verbatim>\<open>runUpdater\<close> of \<^verbatim>\<open>index.js\<close> returns, one constructor for each \<^verbatim>\<open>return\<close>. The
  outer \<^verbatim>\<open>catch\<close> has no constructor: nothing between \<^verbatim>\<open>try\<close> and it throws outside the
  two inner \<^verbatim>\<open>try\<close> blocks.\<close>

record summary =
  success :: bool
  execution_mode_test :: bool
  valid_2025_plays :: nat
  skipped_plays :: nat
  update_results :: updateResults

datatype runResult =
    Skipped
  | FetchFailed
  | NoPlays
  | NoValidPlays nat nat
  | Finished summary


text \<open>\<open>processPlays\<close> is \<^verbatim>\<open>runUpdater\<close> from the point where \<^verbatim>\<open>pbpData\<close> is there; the result
  comes with the log of the upsert calls.\<close>

definition processPlays :: "host \<Rightarrow> config \<Rightarrow> obj list \<Rightarrow> (nat \<Rightarrow> obj list \<Rightarrow> upsertResult) \<Rightarrow> runResult \<times> obj list list" where
  "processPlays h cfg rows upsert =
     (if length rows = 0 then (NoPlays, [])
      else let transformedPlays = fst (transformPlays h rows);
               skippedPlays = snd (transformPlays h rows)
           in if length transformedPlays = 0
              then (NoValidPlays (length rows) (length skippedPlays), [])
              else let (updateResults, calls) =
                         (if testMode cfg
                          then (\<lparr> attempted = length transformedPlays,
                                   successful = length transformedPlays, failed = 0,
                                   errors = [] \<rparr>, [])
                          else updateDatabase upsert transformedPlays)
                   in (Finished
                        \<lparr> success = (successful updateResults > 0 \<or> testMode cfg),
                          execution_mode_test = testMode cfg,
                          valid_2025_plays = length transformedPlays,
                          skipped_plays = length skippedPlays,
                          update_results = updateResults \<rparr>,
                       calls))"

definition runUpdater :: "host \<Rightarrow> config \<Rightarrow> fetched list \<Rightarrow> (nat \<Rightarrow> obj list \<Rightarrow> upsertResult) \<Rightarrow> runResult \<times> obj list list" where
  "runUpdater h cfg sources upsert =
     (if \<not> inNflSeason h cfg \<and> \<not> testMode cfg then (Skipped, [])
      else case fetchAndParsePbp h (cutoffDate cfg) sources of
        None \<Rightarrow> (FetchFailed, [])
      | Some rows \<Rightarrow> processPlays h cfg rows upsert)"

text \<open>
  The second revision returns smaller objects and has no inner \<^verbatim>\<open>try\<close>: an exception of
  the fetch or of an upsert reaches the outer \<^verbatim>\<open>catch\<close>. \<open>processPlays_000\<close> is its
  \<^verbatim>\<open>runUpdater\<close> from the point where \<^verbatim>\<open>pbpData\<close> is there.
\<close>

datatype runResult_000 =
    Skipped_000
  | NoRecentPlays_000
  | TestRun_000 nat
  | Done_000 bool nat nat
  | CriticalError_000

function batchLoop_000 :: "(nat \<Rightarrow> obj list \<Rightarrow> upsertResult) \<Rightarrow> obj list \<Rightarrow> nat \<Rightarrow> nat \<Rightarrow> jsstring list \<Rightarrow> obj list list
    \<Rightarrow> (nat \<times> jsstring list \<times> obj list list) \<times> jsstring option" where
  "batchLoop_000 upsert transformedPlays i totalProcessed errs calls =
     (if i < length transformedPlays then
        (let batch = take 100 (drop i transformedPlays);
             batchNum = i div 100 + 1
         in case upsert batchNum batch of
              UpsertError message \<Rightarrow>
                batchLoop_000 upsert transformedPlays (i + 100) totalProcessed (errs @ [message])
                  (calls @ [batch])
            | UpsertOk \<Rightarrow>
                batchLoop_000 upsert transformedPlays (i + 100) (totalProcessed + length batch) errs
                  (calls @ [batch])
            | UpsertThrew message \<Rightarrow> ((totalProcessed, errs, calls @ [batch]), Some message))
      else ((totalProcessed, errs, calls), None))"
  by pat_completeness auto
termination
  by (relation "measure (\<lambda>(upsert, transformedPlays, i, rest). length transformedPlays - i)") auto

declare batchLoop_000.simps [simp del]

definition processPlays_000 :: "host \<Rightarrow> config \<Rightarrow> obj list \<Rightarrow> (nat \<Rightarrow> obj list \<Rightarrow> upsertResult) \<Rightarrow> runResult_000 \<times> obj list list" where
  "processPlays_000 h cfg rows upsert =
     (if length rows = 0 then (NoRecentPlays_000, [])
      else let transformedPlays = transformPlays_000 h rows
           in if testMode cfg then (TestRun_000 (length transformedPlays), [])
              else case batchLoop_000 upsert transformedPlays 0 0 [] [] of
                     ((totalProcessed, errs, calls), None) \<Rightarrow>
                       (Done_000 (length errs = 0) totalProcessed
                          (length transformedPlays - totalProcessed), calls)
                   | ((totalProcessed, errs, calls), Some message) \<Rightarrow>
                       (CriticalError_000, calls))"

definition runUpdater_000 :: "host \<Rightarrow> config \<Rightarrow> fetched list \<Rightarrow> (nat \<Rightarrow> obj list \<Rightarrow> upsertResult) \<Rightarrow> runResult_000 \<times> obj list list" where
  "runUpdater_000 h cfg sources upsert =
     (if \<not> inNflSeason_000 h cfg \<and> \<not> testMode cfg then (Skipped_000, [])
      else case fetchAndParsePbp_000 h (cutoffDate cfg) sources of
        None \<Rightarrow> (CriticalError_000, [])
      | Some rows \<Rightarrow> processPlays_000 h cfg rows upsert)"


section \<open>The odds updater\<close>

definition ALTERNATE_MARKETS :: "string list" where
  "ALTERNATE_MARKETS =
     [''player_pass_yds_alternate'', ''player_pass_tds_alternate'',
      ''player_pass_attempts_alternate'', ''player_pass_completions_alternate'',
      ''player_pass_interceptions_alternate'', ''player_rush_yds_alternate'',
      ''player_rush_attempts_alternate'', ''player_rush_tds_alternate'',
      ''player_rush_reception_yds_alternate'', ''player_reception_yds_alternate'',
      ''player_receptions_alternate'', ''player_field_goals_alternate'']"

text \<open>\<^verbatim>\<open>d.getUTCDate()\<close> and \<^verbatim>\<open>d.setUTCDate(date)\<close> on a date that may be invalid.\<close>

definition getUTCDate :: "int option \<Rightarrow> int option" where
  "getUTCDate d = (case d of None \<Rightarrow> None | Some t \<Rightarrow> Some (DateFromTime t))"

definition setUTCDate :: "int option \<Rightarrow> int option \<Rightarrow> int option" where
  "setUTCDate d date =
     (case d of
        None \<Rightarrow> None
      | Some t \<Rightarrow>
          (case date of
             None \<Rightarrow> None
           | Some dt \<Rightarrow>
               TimeClip (MakeDate (MakeDay (YearFromTime t) (MonthFromTime t) dt) (TimeWithinDay t))))"

record window =
  w_start :: "int option"
  w_end :: "int option"

text \<open>\<open>getUpcomingGamesWindow\<close> takes the time value of \<^verbatim>\<open>now\<close>, a valid date.\<close>

definition getUpcomingGamesWindow :: "int \<Rightarrow> window" where
  "getUpcomingGamesWindow t =
     (let start = (case DateUTC (YearFromTime t) (MonthFromTime t) (DateFromTime t) 0 0 0 of
                     None \<Rightarrow> None | Some u \<Rightarrow> TimeClip u);
          end = setUTCDate start (case getUTCDate start of None \<Rightarrow> None | Some d \<Rightarrow> Some (d + 4))
      in \<lparr> w_start = start, w_end = end \<rparr>)"

text \<open>
  \<^verbatim>\<open>String(s).replace(/\s+/g, '_').replace(/[^a-zA-Z0-9_\-]/g, '')\<close>: every maximal run of
  white space becomes one underscore (95), then every code unit outside the class is
  removed. \<open>inRun\<close> says that the code unit before was white space.
\<close>

fun replaceWhiteSpace :: "bool \<Rightarrow> jsstring \<Rightarrow> jsstring" where
  "replaceWhiteSpace inRun [] = []"
| "replaceWhiteSpace inRun (c # cs) =
     (if isWhiteSpace c then (if inRun then replaceWhiteSpace True cs else 95 # replaceWhiteSpace True cs)
      else c # replaceWhiteSpace False cs)"

definition inClass :: "nat \<Rightarrow> bool" where
  "inClass c = ((97 \<le> c \<and> c \<le> 122) \<or> (65 \<le> c \<and> c \<le> 90) \<or> (48 \<le> c \<and> c \<le> 57) \<or> c = 95 \<or> c = 45)"

definition sanitize :: "host \<Rightarrow> jsval \<Rightarrow> jsstring" where
  "sanitize h s = filter inClass (replaceWhiteSpace False (ToString h s))"

definition getSeasonYear :: "int option \<Rightarrow> int option" where
  "getSeasonYear kickoff =
     (case kickoff of
        None \<Rightarrow> None
      | Some t \<Rightarrow> (let m = MonthFromTime t; y = YearFromTime t in Some (if m \<ge> 8 then y else y - 1)))"

definition isInSeason :: "int \<Rightarrow> bool" where
  "isInSeason t =
     (let yr = YearFromTime t;
          start = DateUTC yr 8 1 0 0 0;
          end = DateUTC (yr + 1) 1 28 23 59 59
      in date_ge (Some t) start \<and> date_le (Some t) end)"

definition toNumber :: "host \<Rightarrow> jsval \<Rightarrow> jsval" where
  "toNumber h x =
     (if x = JNull \<or> x = JUndefined then JNull
      else case h_Number h x of Fin n \<Rightarrow> JNum (Fin n) | _ \<Rightarrow> JNull)"

text \<open>
  The JSON of the Odds API, as far as the program reads it. A list that the program
  guards with \<^verbatim>\<open>??\<close> or \<^verbatim>\<open>Array.isArray\<close> may be missing (\<open>None\<close>), and an outcome may be
  \<^verbatim>\<open>null\<close> (the program reads it with \<^verbatim>\<open>out?.description\<close>).
\<close>

record outcome =
  o_description :: jsval
  o_point :: jsval
  o_name :: jsval
  o_price :: jsval

record market =
  m_key :: jsval
  m_outcomes :: "outcome option list option"

record bookmaker =
  b_key :: jsval
  b_title :: jsval
  b_last_update :: jsval
  b_markets :: "market list option"

record event =
  e_id :: jsval
  e_home_team :: jsval
  e_away_team :: jsval
  e_commence_time :: jsval

text \<open>
  A row for \<^verbatim>\<open>nfl_odds_alternate_lines\<close>. Left out are \<^verbatim>\<open>sport_key\<close>, \<^verbatim>\<open>week_number\<close> and
  \<^verbatim>\<open>outcome_price\<close> (constants), \<^verbatim>\<open>market_name\<close> (a copy of \<^verbatim>\<open>market_key\<close>), \<^verbatim>\<open>prop_type\<close> and
  \<^verbatim>\<open>bet_type\<close> (functions of \<^verbatim>\<open>market_key\<close> and \<^verbatim>\<open>outcome_name\<close> through the host's property
  lookup and \<^verbatim>\<open>toLowerCase\<close>) and \<^verbatim>\<open>updated_at\<close> (the clock); nothing below reads them.
\<close>

record oddsRecord =
  r_id :: jsstring
  r_event_id :: jsval
  r_commence_time :: jsval
  r_home_team :: jsval
  r_away_team :: jsval
  r_season_year :: "int option"
  r_bookmaker_key :: jsval
  r_bookmaker_title :: jsval
  r_bookmaker_last_update :: jsval
  r_market_key :: jsval
  r_player_name :: jsval
  r_outcome_name :: jsval
  r_decimal_price :: jsval
  r_line_value :: jsval

text \<open>The six parts of the template literal of \<^verbatim>\<open>id\<close>, which joins them with underscores.\<close>

definition idParts :: "host \<Rightarrow> event \<Rightarrow> bookmaker \<Rightarrow> market \<Rightarrow> outcome \<Rightarrow> jsstring list" where
  "idParts h ev book mkt out =
     [ToString h (e_id ev), ToString h (b_key book), ToString h (m_key mkt),
      sanitize h (o_description out), ToString h (o_point out), sanitize h (o_name out)]"

fun joinWith :: "jsstring \<Rightarrow> jsstring list \<Rightarrow> jsstring" where
  "joinWith sep [] = []"
| "joinWith sep [part] = part"
| "joinWith sep (part # parts) = part @ sep @ joinWith sep parts"

definition outcomeRecords :: "host \<Rightarrow> event \<Rightarrow> bookmaker \<Rightarrow> market \<Rightarrow> outcome option \<Rightarrow> oddsRecord list" where
  "outcomeRecords h ev book mkt out' =
     (case out' of
        None \<Rightarrow> []
      | Some out \<Rightarrow>
          if \<not> truthy (o_description out) \<or> o_point out = JUndefined \<or> o_point out = JNull then []
          else [\<lparr> r_id = joinWith (jstr ''_'') (idParts h ev book mkt out),
                  r_event_id = e_id ev,
                  r_commence_time = e_commence_time ev,
                  r_home_team = e_home_team ev,
                  r_away_team = e_away_team ev,
                  r_season_year = getSeasonYear (newDate h (e_commence_time ev)),
                  r_bookmaker_key = b_key book,
                  r_bookmaker_title = b_title book,
                  r_bookmaker_last_update = b_last_update book,
                  r_market_key = m_key mkt,
                  r_player_name = o_description out,
                  r_outcome_name = o_name out,
                  r_decimal_price = toNumber h (o_price out),
                  r_line_value = o_point out \<rparr>])"

text \<open>The three nested loops that fill \<^verbatim>\<open>records\<close> for one response.\<close>

definition buildRecords :: "host \<Rightarrow> event \<Rightarrow> bookmaker list \<Rightarrow> oddsRecord list" where
  "buildRecords h ev books =
     concat (map (\<lambda>book.
       concat (map (\<lambda>mkt.
         concat (map (outcomeRecords h ev book mkt)
           (case m_outcomes mkt of None \<Rightarrow> [] | Some outs \<Rightarrow> outs)))
         (case b_markets book of None \<Rightarrow> [] | Some mkts \<Rightarrow> mkts)))
       books)"

text \<open>
  What the Odds API answers. \<open>EventsNotOk\<close> leads to the \<^verbatim>\<open>throw new Error(...)\<close> of the
  program; an exception of a fetch (or of reading its JSON) reaches the outer \<^verbatim>\<open>catch\<close>.
  The answer to the request for the odds depends on the position of the event among the
  filtered events and on the market; so does the answer of the persistence collaborator.
\<close>

datatype eventsResponse = EventsThrew | EventsNotOk | Events "event list"

datatype oddsResponse = OddsThrew | OddsNotOk | OddsData "bookmaker list option"

text \<open>
  The loop over \<^verbatim>\<open>ALTERNATE_MARKETS\<close> for one event. \<open>Inl\<close> is an exception on its way to
  the outer \<^verbatim>\<open>catch\<close>, \<open>Inr\<close> the normal end; both carry the log of the upsert calls, which
  starts as \<open>calls\<close>.
\<close>

fun marketLoop :: "host \<Rightarrow> bool \<Rightarrow> (string \<Rightarrow> oddsResponse) \<Rightarrow> (string \<Rightarrow> oddsRecord list \<Rightarrow> upsertResult)
    \<Rightarrow> event \<Rightarrow> string list \<Rightarrow> nat \<Rightarrow> oddsRecord list list
    \<Rightarrow> oddsRecord list list + nat \<times> oddsRecord list list" where
  "marketLoop h test fetchOdds upsert ev [] eventLines calls = Inr (eventLines, calls)"
| "marketLoop h test fetchOdds upsert ev (mk # markets) eventLines calls =
     (case fetchOdds mk of
        OddsThrew \<Rightarrow> Inl calls
      | OddsNotOk \<Rightarrow> marketLoop h test fetchOdds upsert ev markets eventLines calls
      | OddsData bookmakers \<Rightarrow>
          (let books = (case bookmakers of None \<Rightarrow> [] | Some bs \<Rightarrow> bs);
               records = buildRecords h ev books
           in if length records \<noteq> 0 then
                (if \<not> test then
                   (case upsert mk records of
                      UpsertOk \<Rightarrow>
                        marketLoop h test fetchOdds upsert ev markets (eventLines + length records)
                          (calls @ [records])
                    | UpsertError message \<Rightarrow>
                        marketLoop h test fetchOdds upsert ev markets eventLines (calls @ [records])
                    | UpsertThrew message \<Rightarrow>
                        marketLoop h test fetchOdds upsert ev markets eventLines (calls @ [records]))
                 else marketLoop h test fetchOdds upsert ev markets (eventLines + length records) calls)
              else marketLoop h test fetchOdds upsert ev markets eventLines calls))"

record tally =
  totalInserted :: nat
  withData :: nat
  noData :: nat

text \<open>The loop over the filtered events; \<open>i\<close> is the position of the first of \<open>events\<close>.\<close>

fun eventLoop :: "host \<Rightarrow> bool \<Rightarrow> (nat \<Rightarrow> string \<Rightarrow> oddsResponse)
    \<Rightarrow> (nat \<Rightarrow> string \<Rightarrow> oddsRecord list \<Rightarrow> upsertResult)
    \<Rightarrow> nat \<Rightarrow> event list \<Rightarrow> tally \<Rightarrow> oddsRecord list list
    \<Rightarrow> oddsRecord list list + tally \<times> oddsRecord list list" where
  "eventLoop h test fetchOdds upsert i [] acc calls = Inr (acc, calls)"
| "eventLoop h test fetchOdds upsert i (ev # events) acc calls =
     (case marketLoop h test (fetchOdds i) (upsert i) ev ALTERNATE_MARKETS 0 calls of
        Inl calls' \<Rightarrow> Inl calls'
      | Inr (eventLines, calls') \<Rightarrow>
          eventLoop h test fetchOdds upsert (i + 1) events
            (if eventLines > 0
             then acc\<lparr> withData := withData acc + 1,
                      totalInserted := totalInserted acc + eventLines \<rparr>
             else acc\<lparr> noData := noData acc + 1 \<rparr>)
            calls')"

record completed =
  eventsProcessed :: nat
  eventsWithData :: nat
  eventsWithNoData :: nat
  totalLinesInserted :: nat
  c_testMode :: bool

datatype runResult_001 =
    Skipped_001
  | NoGames_001
  | Completed_001 completed
  | Fatal_001


text \<open>\<^verbatim>\<open>allEvents.filter((e) => { const t = new Date(e.commence_time); return t >= start && t < end; })\<close>\<close>

definition inWindow :: "host \<Rightarrow> window \<Rightarrow> event \<Rightarrow> bool" where
  "inWindow h w e =
     (let t = newDate h (e_commence_time e) in date_ge t (w_start w) \<and> date_lt t (w_end w))"

text \<open>
  \<open>runUpdater\<close> of the odds updater, with the \<^verbatim>\<open>--test\<close> flag and the time value of its
  \<^verbatim>\<open>now\<close>. The first test stands for the \<^verbatim>\<open>toISOString()\<close> calls of the first log line,
  which throw a \<^verbatim>\<open>RangeError\<close> on an invalid date.
\<close>

definition runUpdater_001 :: "host \<Rightarrow> bool \<Rightarrow> int \<Rightarrow> eventsResponse \<Rightarrow> (nat \<Rightarrow> string \<Rightarrow> oddsResponse)
    \<Rightarrow> (nat \<Rightarrow> string \<Rightarrow> oddsRecord list \<Rightarrow> upsertResult) \<Rightarrow> runResult_001 \<times> oddsRecord list list" where
  "runUpdater_001 h test t eventsRes fetchOdds upsert =
     (let w = getUpcomingGamesWindow t
      in if w_start w = None \<or> w_end w = None then (Fatal_001, [])
         else if \<not> isInSeason t \<and> \<not> test then (Skipped_001, [])
         else case eventsRes of
           EventsThrew \<Rightarrow> (Fatal_001, [])
         | EventsNotOk \<Rightarrow> (Fatal_001, [])
         | Events allEvents \<Rightarrow>
             (let events = filter (inWindow h w) allEvents
              in if length events = 0 then (NoGames_001, [])
                 else case eventLoop h test fetchOdds upsert 0 events
                             \<lparr> totalInserted = 0, withData = 0, noData = 0 \<rparr> [] of
                        Inl calls \<Rightarrow> (Fatal_001, calls)
                      | Inr (acc, calls) \<Rightarrow>
                          (Completed_001
                             \<lparr> eventsProcessed = length events,
                               eventsWithData = withData acc,
                               eventsWithNoData = noData acc,
                               totalLinesInserted = totalInserted acc,
                               c_testMode = test \<rparr>,
                           calls)))"

text \<open>
  A host for the examples. It reads a string of ASCII digits as that number, as
  \<^verbatim>\<open>parseFloat\<close>, \<^verbatim>\<open>parseInt\<close> and \<^verbatim>\<open>Number\<close> all do, and finds no number in the other
  strings the examples use (\<^verbatim>\<open>"abc"\<close>); its \<^verbatim>\<open>Date.parse\<close> knows the ISO dates of the
  examples and rejects \<^verbatim>\<open>"not-a-date"\<close>; it runs in UTC.
\<close>

fun digitsValue :: "jsstring \<Rightarrow> int \<Rightarrow> int option" where
  "digitsValue [] acc = Some acc"
| "digitsValue (c # cs) acc =
     (if 48 \<le> c \<and> c \<le> 57 then digitsValue cs (10 * acc + int (c - 48)) else None)"

definition exampleNumber :: "jsval \<Rightarrow> jsnum" where
  "exampleNumber v =
     (case v of
        JStr s \<Rightarrow> (if s = [] then NaN
                   else case digitsValue s 0 of None \<Rightarrow> NaN | Some n \<Rightarrow> Fin (of_int n))
      | JNum n \<Rightarrow> n
      | _ \<Rightarrow> NaN)"

definition exampleNumberToString :: "jsnum \<Rightarrow> jsstring" where
  "exampleNumberToString n =
     (if n = Fin (501 / 2) then jstr ''250.5''
      else if n = Fin 2025 then jstr ''2025''
      else if n = Fin 2026 then jstr ''2026''
      else jstr ''0'')"

definition exampleDateParse :: "jsstring \<Rightarrow> int option" where
  "exampleDateParse s =
     (if s = jstr ''2025-11-02'' \<or> s = jstr ''2025-11-02T00:00:00Z'' then Some 1762041600000
      else if s = jstr ''2025-11-01T23:59:59Z'' then Some 1762041599000
      else if s = jstr ''2025-11-06T00:00:00Z'' then Some 1762387200000
      else if s = jstr ''2025-11-03T18:00:00Z'' then Some 1762192800000
      else if s = jstr ''2025-10-01'' then Some 1759276800000
      else if s = jstr ''2025-09-05'' then Some 1757030400000
      else if s = jstr ''2025-09-04'' then Some 1756944000000
      else if s = jstr ''2026-02-15'' then Some 1771113600000
      else None)"

definition exampleHost :: "host" where
  "exampleHost =
     \<lparr> h_parseFloat = exampleNumber, h_parseInt = exampleNumber,
       h_Number = (\<lambda>v. if v = JStr [] then Fin 0 else exampleNumber v),
       h_NumberToString = exampleNumberToString, h_DateParse = exampleDateParse,
       h_LocalTZA = (\<lambda>t. 0) \<rparr>"

section \<open>The tokenizer\<close>

lemma valuesLoop_first:
  "\<exists>more ws. \<forall>values current.
      valuesLoop line values current inQuotes = values @ [trim (current @ more)] @ ws"
proof (induction line arbitrary: inQuotes)
  case Nil
  show ?case by (rule exI [of _ "[]"], rule exI [of _ "[]"]) simp
next
  case (Cons char rest)
  consider (quote) "char = 34" | (comma) "char = 44" "\<not> inQuotes" | (other) "char \<noteq> 34" "\<not> (char = 44 \<and> \<not> inQuotes)"
    by blast
  then show ?case
  proof cases
    case quote
    from Cons.IH [of "\<not> inQuotes"] obtain more ws where
      "\<forall>values current. valuesLoop rest values current (\<not> inQuotes) = values @ [trim (current @ more)] @ ws"
      by blast
    then show ?thesis using quote by auto
  next
    case comma
    from Cons.IH [of inQuotes] obtain more ws where
      m: "\<forall>values current. valuesLoop rest values current inQuotes = values @ [trim (current @ more)] @ ws"
      by blast
    show ?thesis
      by (rule exI [of _ "[]"], rule exI [of _ "trim more # ws"]) (use comma m in simp)
  next
    case other
    from Cons.IH [of inQuotes] obtain more ws where
      m: "\<forall>values current. valuesLoop rest values current inQuotes = values @ [trim (current @ more)] @ ws"
      by blast
    show ?thesis
      by (rule exI [of _ "char # more"], rule exI [of _ ws]) (use other m in auto)
  qed
qed

lemma valuesLoop_values:
  "valuesLoop line values current inQuotes = values @ valuesLoop line [] current inQuotes"
  using valuesLoop_first [of line inQuotes] by (metis append_Nil append_assoc)

text \<open>The state of the tokenizer's loop after a prefix of the line.\<close>

fun loopState :: "jsstring \<Rightarrow> jsstring list \<times> jsstring \<times> bool \<Rightarrow> jsstring list \<times> jsstring \<times> bool" where
  "loopState [] st = st"
| "loopState (char # rest) (values, current, inQuotes) =
     loopState rest
       (if char = 34 then (values, current, \<not> inQuotes)
        else if char = 44 \<and> \<not> inQuotes then (values @ [trim current], [], inQuotes)
        else (values, current @ [char], inQuotes))"

lemma valuesLoop_append:
  "valuesLoop (pre @ post) vs current inQuotes =
     (case loopState pre (vs, current, inQuotes) of
        (values', current', inQuotes') \<Rightarrow> valuesLoop post values' current' inQuotes')"
  by (induction pre arbitrary: vs current inQuotes) auto

lemma loopState_inQuotes:
  "snd (snd (loopState pre (vs, current, inQuotes))) = (inQuotes \<noteq> odd (count_list pre 34))"
  by (induction pre arbitrary: vs current inQuotes) auto

text \<open>
  Claim C5. The line \<^verbatim>\<open>a,"b,c",d\<close> gives the three tokens \<^verbatim>\<open>a\<close>, \<^verbatim>\<open>b,c\<close> and \<^verbatim>\<open>d\<close>. In
  general, a comma with an even number of double quotes before it (outside a quoted field)
  splits the line there: the tokens are those of the text before it followed by those of
  the text after it. A comma with an odd number of double quotes before it (inside a
  quoted field) does not split: the tokens are the ones the line has without that comma,
  except that the comma stays in its token.
\<close>

theorem quote_aware_splitting:
  \<open>csvValues (jstr ''a,"b,c",d'') = [jstr ''a'', jstr ''b,c'', jstr ''d'']
   \<and> (even (count_list pre 34) \<longrightarrow>
        csvValues (pre @ 44 # post) = csvValues pre @ csvValues post)
   \<and> (odd (count_list pre 34) \<longrightarrow>
        (\<exists>values current more rest.
           csvValues (pre @ 44 # post) = values @ [trim (current @ 44 # more)] @ rest
         \<and> csvValues (pre @ post) = values @ [trim (current @ more)] @ rest))\<close>
proof (intro conjI impI)
  show \<open>csvValues (jstr ''a,"b,c",d'') = [jstr ''a'', jstr ''b,c'', jstr ''d'']\<close>
    by (simp add: csvValues_def jstr_def trim_def isWhiteSpace_def)
next
  assume e: "even (count_list pre 34)"
  obtain vs current inQuotes where st: "loopState pre ([], [], False) = (vs, current, inQuotes)"
    by (cases "loopState pre ([], [], False)") auto
  have q: "\<not> inQuotes"
    using loopState_inQuotes [of pre "[]" "[]" False] e by (simp add: st)
  have "csvValues pre = vs @ [trim current]"
    using valuesLoop_append [of pre "[]" "[]" "[]" False] by (simp add: csvValues_def st)
  moreover have "csvValues (pre @ 44 # post) = valuesLoop post (vs @ [trim current]) [] False"
    using valuesLoop_append [of pre "44 # post" "[]" "[]" False] q by (simp add: csvValues_def st)
  ultimately show "csvValues (pre @ 44 # post) = csvValues pre @ csvValues post"
    using valuesLoop_values [of post "vs @ [trim current]" "[]" False]
    by (simp add: csvValues_def)
next
  assume o: "odd (count_list pre 34)"
  obtain vs current inQuotes where st: "loopState pre ([], [], False) = (vs, current, inQuotes)"
    by (cases "loopState pre ([], [], False)") auto
  have q: "inQuotes"
    using loopState_inQuotes [of pre "[]" "[]" False] o by (simp add: st)
  obtain more rest where m:
    "\<forall>values current. valuesLoop post values current True = values @ [trim (current @ more)] @ rest"
    using valuesLoop_first [of post True] by blast
  have "csvValues (pre @ 44 # post) = valuesLoop post vs (current @ [44]) True"
    using valuesLoop_append [of pre "44 # post" "[]" "[]" False] q by (simp add: csvValues_def st)
  moreover have "csvValues (pre @ post) = valuesLoop post vs current True"
    using valuesLoop_append [of pre post "[]" "[]" False] q by (simp add: csvValues_def st)
  ultimately show "\<exists>values current more rest.
           csvValues (pre @ 44 # post) = values @ [trim (current @ 44 # more)] @ rest
         \<and> csvValues (pre @ post) = values @ [trim (current @ more)] @ rest"
    using m by (intro exI [of _ vs] exI [of _ current] exI [of _ more] exI [of _ rest]) simp
qed

theorem quote_aware_splitting_witness:
  \<open>odd (count_list (jstr ''a,"b'') 34) \<and> even (count_list (jstr ''a'') 34)
   \<and> csvValues (jstr ''a'' @ 44 # jstr ''"b,c",d'') = csvValues (jstr ''a'') @ csvValues (jstr ''"b,c",d'')
   \<and> (\<exists>values current more rest.
           csvValues (jstr ''a,"b'' @ 44 # jstr ''c",d'') = values @ [trim (current @ 44 # more)] @ rest
         \<and> csvValues (jstr ''a,"b'' @ jstr ''c",d'') = values @ [trim (current @ more)] @ rest)\<close>
proof -
  have o: \<open>odd (count_list (jstr ''a,"b'') 34)\<close> by (simp add: jstr_def)
  have e: \<open>even (count_list (jstr ''a'') 34)\<close> by (simp add: jstr_def)
  show ?thesis
    using quote_aware_splitting [of \<open>jstr ''a''\<close> \<open>jstr ''"b,c",d''\<close>]
      quote_aware_splitting [of \<open>jstr ''a,"b''\<close> \<open>jstr ''c",d''\<close>] o e
    by blast
qed

section \<open>Sentinel uniformity of the conversions\<close>

lemma jstr_NA: "jstr ''NA'' = [78, 65]"
  by (simp add: jstr_def)

text \<open>
  Claim C4. Each conversion helper is a total function of its argument (no branch raises),
  returns \<^verbatim>\<open>null\<close> for the empty string, for \<^verbatim>\<open>"NA"\<close>, for \<^verbatim>\<open>undefined\<close> and for \<^verbatim>\<open>null\<close>, and
  the numeric ones return \<^verbatim>\<open>null\<close> whenever the host's parser finds no number (\<open>NaN\<close>). These
  are the only arguments that give \<^verbatim>\<open>null\<close>: the text and boolean helpers convert everything
  else. The same holds for the three helpers of the second revision.
\<close>

theorem coercion_sentinel_uniformity:
  "(let sentinel = (v = JStr [] \<or> v = JStr (jstr ''NA'') \<or> v = JUndefined \<or> v = JNull) in
      (safeInteger h v = JNull) = (sentinel \<or> h_parseInt h v = NaN)
    \<and> (safeNumeric h v = JNull) = (sentinel \<or> h_parseFloat h v = NaN)
    \<and> (safeDouble h v = JNull) = (sentinel \<or> h_parseFloat h v = NaN)
    \<and> (safeText h v = JNull) = sentinel
    \<and> (safeBoolean v = JNull) = sentinel
    \<and> (safeNumeric_000 h v = JNull) = (sentinel \<or> h_Number h v = NaN)
    \<and> (safeDouble_000 h v = JNull) = (sentinel \<or> h_parseFloat h v = NaN)
    \<and> (safeText_000 h v = JNull) = sentinel)"
  by (auto simp: safeInteger_def safeNumeric_def safeDouble_def safeText_def safeBoolean_def
      safeNumeric_000_def safeDouble_000_def safeText_000_def Let_def)

section \<open>Malformed lines\<close>

lemma processLine_malformed:
  "length (csvValues line) \<noteq> length headers \<Longrightarrow>
     processLine h c headers st line = st\<lparr>st_totalProcessed := st_totalProcessed st + 1\<rparr>"
  by (simp add: processLine_def Let_def)

lemma processLine_000_malformed:
  "length (csvValues line) \<noteq> length headers \<Longrightarrow>
     processLine_000 h c headers st line = st\<lparr>st_totalProcessed := st_totalProcessed st + 1\<rparr>"
  by (simp add: processLine_000_def Let_def)

lemma processLine_counter:
  "processLine h c headers (st\<lparr>st_totalProcessed := n\<rparr>) line
     = (processLine h c headers st line)\<lparr>st_totalProcessed := n + 1\<rparr>"
  by (simp add: processLine_def Let_def)

lemma processLine_000_counter:
  "processLine_000 h c headers (st\<lparr>st_totalProcessed := n\<rparr>) line
     = (processLine_000 h c headers st line)\<lparr>st_totalProcessed := n + 1\<rparr>"
  by (simp add: processLine_000_def Let_def)

lemma foldl_processLine_counter:
  "foldl (processLine h c headers) (st\<lparr>st_totalProcessed := n\<rparr>) lines
     = (foldl (processLine h c headers) st lines)\<lparr>st_totalProcessed := n + length lines\<rparr>"
proof (induction lines arbitrary: st n)
  case Nil
  show ?case by simp
next
  case (Cons line lines)
  have "foldl (processLine h c headers) (st\<lparr>st_totalProcessed := n\<rparr>) (line # lines)
      = foldl (processLine h c headers) ((processLine h c headers st line)\<lparr>st_totalProcessed := n + 1\<rparr>) lines"
    by (simp add: processLine_counter)
  also have "\<dots> = (foldl (processLine h c headers) (processLine h c headers st line) lines)
      \<lparr>st_totalProcessed := n + 1 + length lines\<rparr>"
    by (rule Cons.IH)
  finally show ?case by simp
qed

lemma foldl_processLine_wellformed:
  "foldl (processLine h c headers) st lines
     = (foldl (processLine h c headers) st
          (filter (\<lambda>l. length (csvValues l) = length headers) lines))
       \<lparr>st_totalProcessed := st_totalProcessed st + length lines\<rparr>"
proof (induction lines arbitrary: st)
  case Nil
  show ?case by simp
next
  case (Cons line lines)
  show ?case
  proof (cases "length (csvValues line) = length headers")
    case True
    have "st_totalProcessed (processLine h c headers st line) = st_totalProcessed st + 1"
      by (simp add: processLine_def Let_def)
    then show ?thesis using True Cons.IH [of "processLine h c headers st line"] by simp
  next
    case False
    then show ?thesis
      using Cons.IH [of st]
      by (simp add: processLine_malformed foldl_processLine_counter)
  qed
qed

lemma foldl_processLine_000_counter:
  "foldl (processLine_000 h c headers) (st\<lparr>st_totalProcessed := n\<rparr>) lines
     = (foldl (processLine_000 h c headers) st lines)\<lparr>st_totalProcessed := n + length lines\<rparr>"
proof (induction lines arbitrary: st n)
  case Nil
  show ?case by simp
next
  case (Cons line lines)
  have "foldl (processLine_000 h c headers) (st\<lparr>st_totalProcessed := n\<rparr>) (line # lines)
      = foldl (processLine_000 h c headers)
          ((processLine_000 h c headers st line)\<lparr>st_totalProcessed := n + 1\<rparr>) lines"
    by (simp add: processLine_000_counter)
  also have "\<dots> = (foldl (processLine_000 h c headers) (processLine_000 h c headers st line) lines)
      \<lparr>st_totalProcessed := n + 1 + length lines\<rparr>"
    by (rule Cons.IH)
  finally show ?case by simp
qed

lemma foldl_processLine_000_wellformed:
  "foldl (processLine_000 h c headers) st lines
     = (foldl (processLine_000 h c headers) st
          (filter (\<lambda>l. length (csvValues l) = length headers) lines))
       \<lparr>st_totalProcessed := st_totalProcessed st + length lines\<rparr>"
proof (induction lines arbitrary: st)
  case Nil
  show ?case by simp
next
  case (Cons line lines)
  show ?case
  proof (cases "length (csvValues line) = length headers")
    case True
    have "st_totalProcessed (processLine_000 h c headers st line) = st_totalProcessed st + 1"
      by (simp add: processLine_000_def Let_def)
    then show ?thesis using True Cons.IH [of "processLine_000 h c headers st line"] by simp
  next
    case False
    then show ?thesis
      using Cons.IH [of st]
      by (simp add: processLine_000_malformed foldl_processLine_000_counter)
  qed
qed

text \<open>
  Claim C8. A data line whose number of tokens differs from the number of headers changes
  nothing but the counter of lines read, in both revisions: no row is built from it. So
  the rows parsed, the two counters of plays and every transformed play are the same as
  if the malformed lines had been taken out of the input beforehand.
\<close>

theorem malformed_line_dropped:
  "(length (csvValues line) \<noteq> length headers \<longrightarrow>
        processLine h c headers st line = st\<lparr>st_totalProcessed := st_totalProcessed st + 1\<rparr>
      \<and> processLine_000 h c headers st line = st\<lparr>st_totalProcessed := st_totalProcessed st + 1\<rparr>)
   \<and> (let wellFormed = filter (\<lambda>l. length (csvValues l) = length headers) lines;
           out = foldl (processLine h c headers) st lines;
           out' = foldl (processLine h c headers) st wellFormed
       in st_pbpData out = st_pbpData out'
        \<and> st_validPlays out = st_validPlays out'
        \<and> st_filteredOldPlays out = st_filteredOldPlays out'
        \<and> transformPlays h (st_pbpData out) = transformPlays h (st_pbpData out'))
   \<and> (let wellFormed = filter (\<lambda>l. length (csvValues l) = length headers) lines;
           out = foldl (processLine_000 h c headers) st lines;
           out' = foldl (processLine_000 h c headers) st wellFormed
       in st_pbpData out = st_pbpData out'
        \<and> st_validPlays out = st_validPlays out'
        \<and> transformPlays_000 h (st_pbpData out) = transformPlays_000 h (st_pbpData out'))"
proof -
  have a: "st_pbpData (foldl (processLine h c headers) st lines)
      = st_pbpData (foldl (processLine h c headers) st
          (filter (\<lambda>l. length (csvValues l) = length headers) lines))"
    and b: "st_validPlays (foldl (processLine h c headers) st lines)
      = st_validPlays (foldl (processLine h c headers) st
          (filter (\<lambda>l. length (csvValues l) = length headers) lines))"
    and d: "st_filteredOldPlays (foldl (processLine h c headers) st lines)
      = st_filteredOldPlays (foldl (processLine h c headers) st
          (filter (\<lambda>l. length (csvValues l) = length headers) lines))"
    by (subst foldl_processLine_wellformed, simp)+
  have a0: "st_pbpData (foldl (processLine_000 h c headers) st lines)
      = st_pbpData (foldl (processLine_000 h c headers) st
          (filter (\<lambda>l. length (csvValues l) = length headers) lines))"
    and b0: "st_validPlays (foldl (processLine_000 h c headers) st lines)
      = st_validPlays (foldl (processLine_000 h c headers) st
          (filter (\<lambda>l. length (csvValues l) = length headers) lines))"
    by (subst foldl_processLine_000_wellformed, simp)+
  show ?thesis
    unfolding Let_def
    by (intro conjI impI)
       (simp_all only: processLine_malformed processLine_000_malformed a [symmetric]
          b [symmetric] d [symmetric] a0 [symmetric] b0 [symmetric] not_False_eq_True)
qed

lemma csvValues_short: "csvValues (jstr ''7,2025_01'') = [jstr ''7'', jstr ''2025_01'']"
  by (simp add: csvValues_def jstr_def trim_def isWhiteSpace_def)

lemma parseHeaders_example:
  "parseHeaders (jstr ''play_id,game_id,game_date'')
     = [jstr ''play_id'', jstr ''game_id'', jstr ''game_date'']"
  by (simp add: parseHeaders_def jstr_def trim_def isWhiteSpace_def)

theorem malformed_line_dropped_witness:
  "length (csvValues (jstr ''7,2025_01''))
      \<noteq> length (parseHeaders (jstr ''play_id,game_id,game_date''))
   \<and> processLine exampleHost (Some 0) (parseHeaders (jstr ''play_id,game_id,game_date''))
        \<lparr>st_pbpData = [], st_totalProcessed = 0, st_validPlays = 0, st_filteredOldPlays = 0\<rparr>
        (jstr ''7,2025_01'')
      = \<lparr>st_pbpData = [], st_totalProcessed = 1, st_validPlays = 0, st_filteredOldPlays = 0\<rparr>
   \<and> processLine_000 exampleHost (Some 0) (parseHeaders (jstr ''play_id,game_id,game_date''))
        \<lparr>st_pbpData = [], st_totalProcessed = 0, st_validPlays = 0, st_filteredOldPlays = 0\<rparr>
        (jstr ''7,2025_01'')
      = \<lparr>st_pbpData = [], st_totalProcessed = 1, st_validPlays = 0, st_filteredOldPlays = 0\<rparr>"
proof -
  have n: "length (csvValues (jstr ''7,2025_01''))
      \<noteq> length (parseHeaders (jstr ''play_id,game_id,game_date''))"
    by (simp add: csvValues_short parseHeaders_example)
  show ?thesis
    using n malformed_line_dropped [of "jstr ''7,2025_01''"
        "parseHeaders (jstr ''play_id,game_id,game_date'')" exampleHost "Some 0"
        "\<lparr>st_pbpData = [], st_totalProcessed = 0, st_validPlays = 0, st_filteredOldPlays = 0\<rparr>"]
    by simp
qed

section \<open>Validation of the identity columns\<close>

lemma jstr_eq_iff: "jstr a = jstr b \<longleftrightarrow> a = b"
  by (simp add: jstr_def inj_map_eq_map inj_of_char)

lemma jstr_Nil_iff: "jstr a = [] \<longleftrightarrow> a = []"
  by (simp add: jstr_def)

lemma transformPlay_play_id:
  "getProp (transformPlay h play) (jstr ''play_id'') = safeNumeric h (getProp play (jstr ''play_id''))"
  by (simp add: transformPlay_def columns_def getProp_def)

lemma transformPlay_game_id:
  "getProp (transformPlay h play) (jstr ''game_id'') = safeText h (getProp play (jstr ''game_id''))"
  by (simp add: transformPlay_def columns_def getProp_def jstr_eq_iff)

lemma transformPlay_000_play_id:
  "getProp (transformPlay_000 h play) (jstr ''play_id'')
     = safeNumeric_000 h (getProp play (jstr ''play_id''))"
  by (simp add: transformPlay_000_def columns_000_def getProp_def)

lemma transformPlay_000_game_id:
  "getProp (transformPlay_000 h play) (jstr ''game_id'')
     = safeText_000 h (getProp play (jstr ''game_id''))"
  by (simp add: transformPlay_000_def columns_000_def getProp_def jstr_eq_iff)

text \<open>The validation of the transformation loop: both raw identity values are truthy.\<close>

definition passesValidation :: "obj \<Rightarrow> bool" where
  "passesValidation play =
     (truthy (getProp play (jstr ''game_id'')) \<and> truthy (getProp play (jstr ''play_id'')))"

lemma transformStep_cases:
  "transformStep h acc play =
     (if passesValidation play then (fst acc @ [transformPlay h play], snd acc)
      else (fst acc, snd acc @
        [\<lparr> gameId = (if truthy (getProp play (jstr ''game_id'')) then getProp play (jstr ''game_id'')
                      else JStr (jstr ''Unknown'')),
           playId = (if truthy (getProp play (jstr ''play_id'')) then getProp play (jstr ''play_id'')
                      else JStr (jstr ''Unknown'')),
           reasons = (if \<not> truthy (getProp play (jstr ''game_id'')) then [jstr ''Missing game_id''] else [])
                      @ (if \<not> truthy (getProp play (jstr ''play_id'')) then [jstr ''Missing play_id''] else []) \<rparr>]))"
  by (simp add: transformStep_def passesValidation_def Let_def)

lemma foldl_transformStep:
  "fst (foldl (transformStep h) acc rows)
      = fst acc @ map (transformPlay h) (filter passesValidation rows)
   \<and> length (snd (foldl (transformStep h) acc rows))
      = length (snd acc) + length (filter (\<lambda>play. \<not> passesValidation play) rows)"
  by (induction rows arbitrary: acc) (simp_all add: transformStep_cases)

lemma transformPlays_eq:
  "fst (transformPlays h rows) = map (transformPlay h) (filter passesValidation rows)"
  "length (snd (transformPlays h rows)) = length (filter (\<lambda>play. \<not> passesValidation play) rows)"
  using foldl_transformStep [of h "([], [])" rows] by (simp_all add: transformPlays_def)

lemma transformPlays_000_eq:
  "transformPlays_000 h rows = map (transformPlay_000 h) (filter passesValidation rows)"
proof -
  have "foldl (transformStep_000 h) acc rows
      = acc @ map (transformPlay_000 h) (filter passesValidation rows)" for acc
    by (induction rows arbitrary: acc) (auto simp: transformStep_000_def passesValidation_def)
  then show ?thesis by (simp add: transformPlays_000_def)
qed

lemma csvValues_NA_row:
  "csvValues (jstr ''NA,2025_44_DAL_PHI,2025-11-02'')
     = [jstr ''NA'', jstr ''2025_44_DAL_PHI'', jstr ''2025-11-02'']"
  by (simp add: csvValues_def jstr_def trim_def isWhiteSpace_def)

lemma processLine_NA_row:
  "st_pbpData (foldl (processLine exampleHost (Some 1759276800000)
        (parseHeaders (jstr ''play_id,game_id,game_date'')))
      \<lparr>st_pbpData = [], st_totalProcessed = 0, st_validPlays = 0, st_filteredOldPlays = 0\<rparr>
      [jstr ''NA,2025_44_DAL_PHI,2025-11-02''])
   = [[(jstr ''play_id'', JStr (jstr ''NA'')), (jstr ''game_id'', JStr (jstr ''2025_44_DAL_PHI'')),
       (jstr ''game_date'', JStr (jstr ''2025-11-02''))]]"
  by (simp add: processLine_def csvValues_NA_row parseHeaders_example makeRow_def Let_def
      getProp_def jstr_eq_iff jstr_Nil_iff exampleHost_def exampleDateParse_def TimeClip_def)

text \<open>
  Claim C2, at the input that shows the defect. The feed writes a missing value as
  \<^verbatim>\<open>NA\<close>. The row \<^verbatim>\<open>NA,2025_44_DAL_PHI,2025-11-02\<close> under the header
  \<^verbatim>\<open>play_id,game_id,game_date\<close> is parsed and admitted, passes the validation (the raw
  \<^verbatim>\<open>play_id\<close> is the non-empty string \<^verbatim>\<open>"NA"\<close>), and its transformed play carries
  \<^verbatim>\<open>play_id = null\<close>; nothing is recorded in \<^verbatim>\<open>skippedPlays\<close>. Both revisions do the same.
\<close>

theorem identity_validation_admits_NA_play_id:
  "(let headers = parseHeaders (jstr ''play_id,game_id,game_date'');
        st = foldl (processLine exampleHost (Some 1759276800000) headers)
               \<lparr>st_pbpData = [], st_totalProcessed = 0, st_validPlays = 0, st_filteredOldPlays = 0\<rparr>
               [jstr ''NA,2025_44_DAL_PHI,2025-11-02''];
        out = transformPlays exampleHost (st_pbpData st);
        out_000 = transformPlays_000 exampleHost (st_pbpData st)
    in map (\<lambda>t. (getProp t (jstr ''play_id''), getProp t (jstr ''game_id''))) (fst out)
         = [(JNull, JStr (jstr ''2025_44_DAL_PHI''))]
     \<and> snd out = []
     \<and> map (\<lambda>t. (getProp t (jstr ''play_id''), getProp t (jstr ''game_id''))) out_000
         = [(JNull, JStr (jstr ''2025_44_DAL_PHI''))])"
proof -
  let ?row = "[(jstr ''play_id'', JStr (jstr ''NA'')), (jstr ''game_id'', JStr (jstr ''2025_44_DAL_PHI'')),
       (jstr ''game_date'', JStr (jstr ''2025-11-02''))]"
  have v: "passesValidation ?row"
    by (simp add: passesValidation_def getProp_def jstr_eq_iff jstr_Nil_iff)
  have p: "getProp ?row (jstr ''play_id'') = JStr (jstr ''NA'')"
    and g: "getProp ?row (jstr ''game_id'') = JStr (jstr ''2025_44_DAL_PHI'')"
    by (simp_all add: getProp_def jstr_eq_iff)
  have t: "trim (jstr ''2025_44_DAL_PHI'') = jstr ''2025_44_DAL_PHI''"
    by (simp add: jstr_def trim_def isWhiteSpace_def)
  have s: "snd (transformPlays exampleHost [?row]) = []"
    using transformPlays_eq(2) [of exampleHost "[?row]"] v by simp
  show ?thesis
    unfolding Let_def processLine_NA_row
    by (simp add: transformPlays_eq(1) transformPlays_000_eq v s transformPlay_play_id
        transformPlay_game_id transformPlay_000_play_id transformPlay_000_game_id p g
        safeNumeric_def safeNumeric_000_def safeText_def safeText_000_def t jstr_eq_iff jstr_Nil_iff)
qed

section \<open>Batches and partial failure\<close>

text \<open>The batches of a list of plays: batch number \<open>j + 1\<close> is
  \<^verbatim>\<open>transformedPlays.slice(100 * j, 100 * j + 100)\<close>, and there are \<open>\<lceil>n / 100\<rceil>\<close> of them.\<close>

definition batchAt :: "'a list \<Rightarrow> nat \<Rightarrow> 'a list" where
  "batchAt plays j = take 100 (drop (100 * j) plays)"

definition batchCount :: "'a list \<Rightarrow> nat" where
  "batchCount plays = (length plays + 99) div 100"

lemma batch_index_in_range: "j < batchCount plays \<longleftrightarrow> 100 * j < length plays"
proof -
  have "j < batchCount plays \<longleftrightarrow> Suc j \<le> (length plays + 99) div 100"
    by (simp add: batchCount_def Suc_le_eq)
  also have "\<dots> \<longleftrightarrow> Suc j * 100 \<le> length plays + 99"
    by (simp add: less_eq_div_iff_mult_less_eq)
  also have "\<dots> \<longleftrightarrow> 100 * j < length plays" by auto
  finally show ?thesis .
qed

lemma concat_batches_from:
  "concat (map (batchAt plays) [j..<batchCount plays]) = drop (100 * j) plays"
proof (induction "batchCount plays - j" arbitrary: j)
  case 0
  then have "\<not> j < batchCount plays" by simp
  then have "\<not> 100 * j < length plays" using batch_index_in_range [of j plays] by simp
  then show ?case using \<open>\<not> j < batchCount plays\<close> by simp
next
  case (Suc n)
  then have lt: "j < batchCount plays" by simp
  have "concat (map (batchAt plays) [j..<batchCount plays])
      = batchAt plays j @ concat (map (batchAt plays) [Suc j..<batchCount plays])"
    using lt by (simp add: upt_conv_Cons)
  also have "\<dots> = take 100 (drop (100 * j) plays) @ drop (100 * Suc j) plays"
    using Suc.hyps(1) [of "Suc j"] Suc.hyps(2) by (simp add: batchAt_def)
  also have "\<dots> = drop (100 * j) plays"
  proof -
    have "drop (100 * Suc j) plays = drop 100 (drop (100 * j) plays)" by simp
    then show ?thesis by (simp only: append_take_drop_id)
  qed
  finally show ?case .
qed

lemma batchLoop_no_throw:
  assumes "\<And>k batch message. upsert k batch \<noteq> UpsertThrew message"
  shows "batchLoop upsert plays (100 * j) totalProcessed errs calls =
     ((totalProcessed
         + sum_list (map (\<lambda>j. case upsert (Suc j) (batchAt plays j) of
               UpsertOk \<Rightarrow> length (batchAt plays j) | _ \<Rightarrow> 0) [j..<batchCount plays]),
       errs @ concat (map (\<lambda>j. case upsert (Suc j) (batchAt plays j) of
               UpsertError message \<Rightarrow> [BatchError (Suc j) message] | _ \<Rightarrow> []) [j..<batchCount plays]),
       calls @ map (batchAt plays) [j..<batchCount plays]), None)"
proof (induction "batchCount plays - j" arbitrary: j totalProcessed errs calls)
  case 0
  then have "\<not> j < batchCount plays" by simp
  then have "\<not> 100 * j < length plays" using batch_index_in_range [of j plays] by simp
  moreover have "[j..<batchCount plays] = []" using \<open>\<not> j < batchCount plays\<close> by simp
  ultimately show ?case by (subst batchLoop.simps) (simp only: if_False list.map sum_list.Nil
      concat.simps append_Nil2 add_0_right)
next
  case (Suc n)
  then have lt: "j < batchCount plays" by simp
  then have i: "100 * j < length plays" using batch_index_in_range [of j plays] by simp
  have u: "[j..<batchCount plays] = j # [Suc j..<batchCount plays]"
    using lt by (simp add: upt_conv_Cons)
  have b: "take 100 (drop (100 * j) plays) = batchAt plays j"
    by (simp add: batchAt_def)
  have n: "100 * j div 100 + 1 = Suc j" by simp
  have s: "100 * j + 100 = 100 * Suc j" by simp
  have ih: "n = batchCount plays - Suc j" using Suc.hyps(2) by simp
  have step: "batchLoop upsert plays (100 * j) totalProcessed errs calls =
      (case upsert (Suc j) (batchAt plays j) of
         UpsertOk \<Rightarrow> batchLoop upsert plays (100 * Suc j)
            (totalProcessed + length (batchAt plays j)) errs (calls @ [batchAt plays j])
       | UpsertError message \<Rightarrow> batchLoop upsert plays (100 * Suc j) totalProcessed
            (errs @ [BatchError (Suc j) message]) (calls @ [batchAt plays j])
       | UpsertThrew message \<Rightarrow> ((totalProcessed, errs, calls @ [batchAt plays j]), Some message))"
    by (subst batchLoop.simps) (simp only: i if_True Let_def b n s)
  show ?case
  proof (cases "upsert (Suc j) (batchAt plays j)")
    case UpsertOk
    then show ?thesis
      unfolding step u by (simp add: Suc.hyps(1) [OF ih] del: mult_Suc_right)
  next
    case (UpsertError message)
    then show ?thesis
      unfolding step u by (simp add: Suc.hyps(1) [OF ih] del: mult_Suc_right)
  next
    case (UpsertThrew message)
    then show ?thesis using assms by blast
  qed
qed

lemma batchLoop_000_no_throw:
  assumes "\<And>k batch message. upsert k batch \<noteq> UpsertThrew message"
  shows "batchLoop_000 upsert plays (100 * j) totalProcessed errs calls =
     ((totalProcessed
         + sum_list (map (\<lambda>j. case upsert (Suc j) (batchAt plays j) of
               UpsertOk \<Rightarrow> length (batchAt plays j) | _ \<Rightarrow> 0) [j..<batchCount plays]),
       errs @ concat (map (\<lambda>j. case upsert (Suc j) (batchAt plays j) of
               UpsertError message \<Rightarrow> [message] | _ \<Rightarrow> []) [j..<batchCount plays]),
       calls @ map (batchAt plays) [j..<batchCount plays]), None)"
proof (induction "batchCount plays - j" arbitrary: j totalProcessed errs calls)
  case 0
  then have "\<not> j < batchCount plays" by simp
  then have "\<not> 100 * j < length plays" using batch_index_in_range [of j plays] by simp
  moreover have "[j..<batchCount plays] = []" using \<open>\<not> j < batchCount plays\<close> by simp
  ultimately show ?case by (subst batchLoop_000.simps) (simp only: if_False list.map sum_list.Nil
      concat.simps append_Nil2 add_0_right)
next
  case (Suc n)
  then have lt: "j < batchCount plays" by simp
  then have i: "100 * j < length plays" using batch_index_in_range [of j plays] by simp
  have u: "[j..<batchCount plays] = j # [Suc j..<batchCount plays]"
    using lt by (simp add: upt_conv_Cons)
  have b: "take 100 (drop (100 * j) plays) = batchAt plays j"
    by (simp add: batchAt_def)
  have n: "100 * j div 100 + 1 = Suc j" by simp
  have s: "100 * j + 100 = 100 * Suc j" by simp
  have ih: "n = batchCount plays - Suc j" using Suc.hyps(2) by simp
  have step: "batchLoop_000 upsert plays (100 * j) totalProcessed errs calls =
      (case upsert (Suc j) (batchAt plays j) of
         UpsertError message \<Rightarrow> batchLoop_000 upsert plays (100 * Suc j) totalProcessed
            (errs @ [message]) (calls @ [batchAt plays j])
       | UpsertOk \<Rightarrow> batchLoop_000 upsert plays (100 * Suc j)
            (totalProcessed + length (batchAt plays j)) errs (calls @ [batchAt plays j])
       | UpsertThrew message \<Rightarrow> ((totalProcessed, errs, calls @ [batchAt plays j]), Some message))"
    by (subst batchLoop_000.simps) (simp only: i if_True Let_def b n s)
  show ?case
  proof (cases "upsert (Suc j) (batchAt plays j)")
    case UpsertOk
    then show ?thesis
      unfolding step u by (simp add: Suc.hyps(1) [OF ih] del: mult_Suc_right)
  next
    case (UpsertError message)
    then show ?thesis
      unfolding step u by (simp add: Suc.hyps(1) [OF ih] del: mult_Suc_right)
  next
    case (UpsertThrew message)
    then show ?thesis using assms by blast
  qed
qed

lemma ok_plus_error_lengths:
  assumes "\<And>k batch message. upsert k batch \<noteq> UpsertThrew message"
  shows "sum_list (map (\<lambda>j. case upsert (Suc j) (batchAt plays j) of
               UpsertOk \<Rightarrow> length (batchAt plays j) | _ \<Rightarrow> 0) js)
       + sum_list (map (\<lambda>j. case upsert (Suc j) (batchAt plays j) of
               UpsertError message \<Rightarrow> length (batchAt plays j) | _ \<Rightarrow> 0) js)
       = length (concat (map (batchAt plays) js))"
proof (induction js)
  case Nil
  show ?case by simp
next
  case (Cons j js)
  then show ?case using assms
    by (cases "upsert (Suc j) (batchAt plays j)") auto
qed

text \<open>
  A run that reaches the loop. With the test flag off, in season, with a feed that was
  fetched and parsed and (in \<^verbatim>\<open>index.js\<close>) at least one play that passed the validation,
  \<^verbatim>\<open>runUpdater\<close> returns the summary below and has submitted the batches below, provided the
  collaborator answers every call.
\<close>

lemma runUpdater_live:
  assumes nt: "\<And>k batch message. upsert k batch \<noteq> UpsertThrew message"
    and live: "\<not> testMode cfg"
    and season: "inNflSeason h cfg"
    and feed: "fetchAndParsePbp h (cutoffDate cfg) sources = Some rows"
    and some: "fst (transformPlays h rows) \<noteq> []"
  shows "runUpdater h cfg sources upsert =
     (let plays = fst (transformPlays h rows);
          js = [0..<batchCount plays];
          ok = sum_list (map (\<lambda>j. case upsert (Suc j) (batchAt plays j) of
                   UpsertOk \<Rightarrow> length (batchAt plays j) | _ \<Rightarrow> 0) js)
      in (Finished
           \<lparr> success = (0 < ok), execution_mode_test = False,
             valid_2025_plays = length plays,
             skipped_plays = length (snd (transformPlays h rows)),
             update_results =
               \<lparr> attempted = length plays, successful = ok,
                 failed = sum_list (map (\<lambda>j. case upsert (Suc j) (batchAt plays j) of
                   UpsertError message \<Rightarrow> length (batchAt plays j) | _ \<Rightarrow> 0) js),
                 errors = concat (map (\<lambda>j. case upsert (Suc j) (batchAt plays j) of
                   UpsertError message \<Rightarrow> [BatchError (Suc j) message] | _ \<Rightarrow> []) js) \<rparr> \<rparr>,
          map (batchAt plays) js))"
proof -
  define plays where "plays = fst (transformPlays h rows)"
  let ?js = "[0..<batchCount plays]"
  let ?ok = "sum_list (map (\<lambda>j. case upsert (Suc j) (batchAt plays j) of
               UpsertOk \<Rightarrow> length (batchAt plays j) | _ \<Rightarrow> 0) ?js)"
  let ?bad = "sum_list (map (\<lambda>j. case upsert (Suc j) (batchAt plays j) of
               UpsertError message \<Rightarrow> length (batchAt plays j) | _ \<Rightarrow> 0) ?js)"
  have c: "concat (map (batchAt plays) ?js) = plays"
    using concat_batches_from [of plays 0] by simp
  have l: "batchLoop upsert plays 0 0 [] [] =
      ((?ok, concat (map (\<lambda>j. case upsert (Suc j) (batchAt plays j) of
               UpsertError message \<Rightarrow> [BatchError (Suc j) message] | _ \<Rightarrow> []) ?js),
        map (batchAt plays) ?js), None)"
    using batchLoop_no_throw [OF nt, where plays = plays and j = 0 and totalProcessed = 0
        and errs = "[]" and calls = "[]"] by simp
  have "?ok + ?bad = length plays"
    using ok_plus_error_lengths [OF nt, where plays = plays and js = ?js] by (simp only: c)
  then have f: "length plays - ?ok = ?bad" by simp
  have rows: "rows \<noteq> []" using some by (auto simp: transformPlays_def)
  have p: "plays \<noteq> []" using some by (simp add: plays_def)
  have "processPlays h cfg rows upsert =
      (Finished
           \<lparr> success = (0 < ?ok), execution_mode_test = False,
             valid_2025_plays = length plays,
             skipped_plays = length (snd (transformPlays h rows)),
             update_results =
               \<lparr> attempted = length plays, successful = ?ok, failed = ?bad,
                 errors = concat (map (\<lambda>j. case upsert (Suc j) (batchAt plays j) of
                   UpsertError message \<Rightarrow> [BatchError (Suc j) message] | _ \<Rightarrow> []) ?js) \<rparr> \<rparr>,
          map (batchAt plays) ?js)"
    using rows p live
    by (simp add: processPlays_def Let_def plays_def [symmetric] updateDatabase_def l f)
  then show ?thesis
    using season live feed by (simp add: runUpdater_def Let_def plays_def [symmetric])
qed

text \<open>The same for the second revision, whose result is
  \<^verbatim>\<open>{ success: errors.length === 0, processed, failed }\<close>.\<close>

lemma runUpdater_000_live:
  assumes nt: "\<And>k batch message. upsert k batch \<noteq> UpsertThrew message"
    and live: "\<not> testMode cfg"
    and season: "inNflSeason_000 h cfg"
    and feed: "fetchAndParsePbp_000 h (cutoffDate cfg) sources = Some rows"
    and some: "rows \<noteq> []"
  shows "runUpdater_000 h cfg sources upsert =
     (let plays = transformPlays_000 h rows;
          js = [0..<batchCount plays]
      in (Done_000 (list_all (\<lambda>j. upsert (Suc j) (batchAt plays j) = UpsertOk) js)
            (sum_list (map (\<lambda>j. case upsert (Suc j) (batchAt plays j) of
                   UpsertOk \<Rightarrow> length (batchAt plays j) | _ \<Rightarrow> 0) js))
            (sum_list (map (\<lambda>j. case upsert (Suc j) (batchAt plays j) of
                   UpsertError message \<Rightarrow> length (batchAt plays j) | _ \<Rightarrow> 0) js)),
          map (batchAt plays) js))"
proof -
  define plays where "plays = transformPlays_000 h rows"
  let ?js = "[0..<batchCount plays]"
  let ?ok = "sum_list (map (\<lambda>j. case upsert (Suc j) (batchAt plays j) of
               UpsertOk \<Rightarrow> length (batchAt plays j) | _ \<Rightarrow> 0) ?js)"
  let ?bad = "sum_list (map (\<lambda>j. case upsert (Suc j) (batchAt plays j) of
               UpsertError message \<Rightarrow> length (batchAt plays j) | _ \<Rightarrow> 0) ?js)"
  let ?errs = "concat (map (\<lambda>j. case upsert (Suc j) (batchAt plays j) of
               UpsertError message \<Rightarrow> [message] | _ \<Rightarrow> []) ?js)"
  have l0: "batchLoop_000 upsert plays 0 0 [] [] = ((?ok, ?errs, map (batchAt plays) ?js), None)"
    using batchLoop_000_no_throw [OF nt, where plays = plays and j = 0 and totalProcessed = 0
        and errs = "[]" and calls = "[]"] by simp
  have c: "concat (map (batchAt plays) ?js) = plays"
    using concat_batches_from [of plays 0] by simp
  have "?ok + ?bad = length plays"
    using ok_plus_error_lengths [OF nt, where plays = plays and js = ?js] by (simp only: c)
  then have f: "length plays - ?ok = ?bad" by simp
  have e: "(length (concat (map (\<lambda>j. case upsert (Suc j) (batchAt plays j) of
               UpsertError message \<Rightarrow> [message] | _ \<Rightarrow> []) js)) = 0)
      = list_all (\<lambda>j. upsert (Suc j) (batchAt plays j) = UpsertOk) js" for js
    using nt by (induction js) (auto split: upsertResult.splits)
  have "processPlays_000 h cfg rows upsert =
      (Done_000 (list_all (\<lambda>j. upsert (Suc j) (batchAt plays j) = UpsertOk) ?js) ?ok ?bad,
       map (batchAt plays) ?js)"
    using some live
    by (simp add: processPlays_000_def Let_def plays_def [symmetric] l0 f e del: length_0_conv)
  then show ?thesis
    using season live feed by (simp add: runUpdater_000_def Let_def plays_def [symmetric])
qed

subsection \<open>An example feed\<close>

text \<open>
  A feed body that the programs accept (it has more than 10000 code units): the header
  line and 400 data lines, all dated 2025-11-02. The clock of the examples is
  2025-11-02T12:03:20Z, in season, and the cut-off seven days before it.
\<close>

definition exampleFeed :: jsstring where
  "exampleFeed = jstr ''play_id,game_id,game_date''
     @ concat (replicate 400 (10 # jstr ''7,2025_44_DAL_PHI,2025-11-02''))"

definition exampleRow :: obj where
  "exampleRow =
     [(jstr ''play_id'', JStr (jstr ''7'')), (jstr ''game_id'', JStr (jstr ''2025_44_DAL_PHI'')),
      (jstr ''game_date'', JStr (jstr ''2025-11-02''))]"

text \<open>Two collaborators for the examples: one reports an error for the first batch, the
  other for the second, and both accept every other batch.\<close>

definition failFirstBatch :: "nat \<Rightarrow> obj list \<Rightarrow> upsertResult" where
  "failFirstBatch k batch = (if k = 1 then UpsertError (jstr ''timeout'') else UpsertOk)"

definition failSecondBatch :: "nat \<Rightarrow> obj list \<Rightarrow> upsertResult" where
  "failSecondBatch k batch = (if k = 2 then UpsertError (jstr ''timeout'') else UpsertOk)"

lemma failSecondBatch_Suc:
  "failSecondBatch (Suc j) batch = (if j = 1 then UpsertError (jstr ''timeout'') else UpsertOk)"
  by (simp add: failSecondBatch_def)

lemma split_js_single: "sep \<notin> set xs \<Longrightarrow> split_js sep xs = [xs]"
  by (induction xs) auto

lemma split_js_append:
  "sep \<notin> set xs \<Longrightarrow> split_js sep (xs @ sep # rest) = xs # split_js sep rest"
  by (induction xs) auto

lemma split_js_lines:
  "sep \<notin> set first \<Longrightarrow> sep \<notin> set line \<Longrightarrow>
     split_js sep (first @ concat (replicate n (sep # line))) = first # replicate n line"
proof (induction n arbitrary: first)
  case 0
  then show ?case by (simp add: split_js_single)
next
  case (Suc n)
  have "split_js sep (first @ concat (replicate (Suc n) (sep # line)))
      = split_js sep (first @ sep # (line @ concat (replicate n (sep # line))))" by simp
  also have "\<dots> = first # split_js sep (line @ concat (replicate n (sep # line)))"
    using Suc.prems(1) by (rule split_js_append)
  also have "\<dots> = first # line # replicate n line"
    using Suc.IH [OF Suc.prems(2) Suc.prems(2)] by simp
  finally show ?case by simp
qed

lemma exampleFeed_lines:
  "filter (\<lambda>line. trim line \<noteq> []) (split_js 10 exampleFeed)
     = jstr ''play_id,game_id,game_date'' # replicate 400 (jstr ''7,2025_44_DAL_PHI,2025-11-02'')"
proof -
  have "split_js 10 exampleFeed
     = jstr ''play_id,game_id,game_date'' # replicate 400 (jstr ''7,2025_44_DAL_PHI,2025-11-02'')"
    unfolding exampleFeed_def by (rule split_js_lines) (simp_all add: jstr_def)
  moreover have "trim (jstr ''play_id,game_id,game_date'') \<noteq> []"
    "trim (jstr ''7,2025_44_DAL_PHI,2025-11-02'') \<noteq> []"
    by (simp_all add: trim_def jstr_def isWhiteSpace_def)
  ultimately show ?thesis by simp
qed

lemma exampleFeed_length: "length exampleFeed = 11625"
  by (simp add: exampleFeed_def jstr_def length_concat sum_list_replicate)

lemma csvValues_example_line:
  "csvValues (jstr ''7,2025_44_DAL_PHI,2025-11-02'')
     = [jstr ''7'', jstr ''2025_44_DAL_PHI'', jstr ''2025-11-02'']"
  by (simp add: csvValues_def jstr_def trim_def isWhiteSpace_def)

lemma processLine_example_line:
  "processLine exampleHost (Some 1761480200000) (parseHeaders (jstr ''play_id,game_id,game_date''))
       st (jstr ''7,2025_44_DAL_PHI,2025-11-02'')
     = st\<lparr>st_totalProcessed := st_totalProcessed st + 1, st_validPlays := st_validPlays st + 1,
          st_pbpData := st_pbpData st @ [exampleRow]\<rparr>"
  "processLine_000 exampleHost (Some 1761480200000) (parseHeaders (jstr ''play_id,game_id,game_date''))
       st (jstr ''7,2025_44_DAL_PHI,2025-11-02'')
     = st\<lparr>st_totalProcessed := st_totalProcessed st + 1, st_validPlays := st_validPlays st + 1,
          st_pbpData := st_pbpData st @ [exampleRow]\<rparr>"
  by (simp_all add: processLine_def processLine_000_def csvValues_example_line parseHeaders_example
      makeRow_def Let_def getProp_def jstr_eq_iff jstr_Nil_iff exampleHost_def exampleDateParse_def
      TimeClip_def exampleRow_def)

lemma foldl_admitted:
  assumes "\<And>st. step st line = st\<lparr>st_totalProcessed := st_totalProcessed st + 1,
      st_validPlays := st_validPlays st + 1, st_pbpData := st_pbpData st @ [row]\<rparr>"
  shows "st_pbpData (foldl step st (replicate n line)) = st_pbpData st @ replicate n row"
proof (induction n arbitrary: st)
  case 0
  show ?case by simp
next
  case (Suc n)
  show ?case by (simp add: assms Suc.IH replicate_app_Cons_same)
qed

lemma example_cutoff: "cutoffDate \<lparr>testMode = False, now = 1762085000000\<rparr> = Some 1761480200000"
  by (simp add: cutoffDate_def TimeClip_def)

lemma exampleFeed_parsed:
  "fetchAndParsePbp exampleHost (Some 1761480200000) [NotOk, Body exampleFeed]
     = Some (replicate 400 exampleRow)"
  "fetchAndParsePbp_000 exampleHost (Some 1761480200000) [NotOk, Body exampleFeed]
     = Some (replicate 400 exampleRow)"
proof -
  have ne: "exampleFeed \<noteq> []" using exampleFeed_length by auto
  show "fetchAndParsePbp exampleHost (Some 1761480200000) [NotOk, Body exampleFeed]
     = Some (replicate 400 exampleRow)"
    using ne foldl_admitted [where step = "processLine exampleHost (Some 1761480200000)
        (parseHeaders (jstr ''play_id,game_id,game_date''))", OF processLine_example_line(1)]
    by (simp add: parseCsvText_def exampleFeed_length exampleFeed_lines Let_def)
  show "fetchAndParsePbp_000 exampleHost (Some 1761480200000) [NotOk, Body exampleFeed]
     = Some (replicate 400 exampleRow)"
    using ne foldl_admitted [where step = "processLine_000 exampleHost (Some 1761480200000)
        (parseHeaders (jstr ''play_id,game_id,game_date''))", OF processLine_example_line(2)]
    by (simp add: parseCsvText_000_def exampleFeed_length exampleFeed_lines Let_def)
qed

lemma in_season_clock:
  "inNflSeason exampleHost \<lparr>testMode = False, now = 1762085000000\<rparr>"
  "inNflSeason_000 exampleHost \<lparr>testMode = False, now = 1762085000000\<rparr>"
  by code_simp+

lemma exampleRow_valid: "passesValidation exampleRow"
  by (simp add: passesValidation_def exampleRow_def getProp_def jstr_eq_iff jstr_Nil_iff)

lemma example_plays:
  "fst (transformPlays h (replicate 400 exampleRow)) = replicate 400 (transformPlay h exampleRow)"
  "snd (transformPlays h (replicate 400 exampleRow)) = []"
  "transformPlays_000 h (replicate 400 exampleRow) = replicate 400 (transformPlay_000 h exampleRow)"
  using transformPlays_eq [of h "replicate 400 exampleRow"]
  by (simp_all add: transformPlays_000_eq exampleRow_valid)

lemma upt_0_4: "[0..<4] = [0, 1, 2, 3]"
  by (simp add: upt_rec)

lemma example_batches:
  "batchCount (replicate 400 p) = 4"
  "batchAt (replicate 400 p) 0 = replicate 100 p"
  "batchAt (replicate 400 p) (Suc 0) = replicate 100 p"
  "batchAt (replicate 400 p) 2 = replicate 100 p"
  "batchAt (replicate 400 p) 3 = replicate 100 p"
  by (simp_all add: batchCount_def batchAt_def)

subsection \<open>What the summary says of the batches that failed\<close>

text \<open>
  Claim C3 as stated fails for the second revision. Its final summary is
  \<^verbatim>\<open>{ success, processed, failed }\<close>: it has no \<^verbatim>\<open>attempted\<close> count and no list of errors (the
  messages are collected, tested for emptiness and logged, not returned). On the example
  feed of 400 plays, a run in which the collaborator refuses the first batch and a run in
  which it refuses the second end with the same summary: not successful, 300 processed,
  100 failed. The summary does not tell which batch failed.
\<close>

theorem second_revision_summary_hides_failed_batch:
  "fst (runUpdater_000 exampleHost \<lparr>testMode = False, now = 1762085000000\<rparr>
        [NotOk, Body exampleFeed] failFirstBatch) = Done_000 False 300 100
   \<and> fst (runUpdater_000 exampleHost \<lparr>testMode = False, now = 1762085000000\<rparr>
        [NotOk, Body exampleFeed] failSecondBatch) = Done_000 False 300 100
   \<and> failFirstBatch 1 (replicate 100 (transformPlay_000 exampleHost exampleRow))
        = UpsertError (jstr ''timeout'')
   \<and> failSecondBatch 1 (replicate 100 (transformPlay_000 exampleHost exampleRow)) = UpsertOk
   \<and> failFirstBatch 2 (replicate 100 (transformPlay_000 exampleHost exampleRow)) = UpsertOk
   \<and> failSecondBatch 2 (replicate 100 (transformPlay_000 exampleHost exampleRow))
        = UpsertError (jstr ''timeout'')"
proof -
  let ?cfg = "\<lparr>testMode = False, now = 1762085000000\<rparr>"
  have nt: "\<And>k batch message. failSecondBatch k batch \<noteq> UpsertThrew message"
    "\<And>k batch message. failFirstBatch k batch \<noteq> UpsertThrew message"
    by (simp_all add: failSecondBatch_def failFirstBatch_def)
  have live: "\<not> testMode ?cfg" by simp
  have feed: "fetchAndParsePbp_000 exampleHost (cutoffDate ?cfg) [NotOk, Body exampleFeed]
      = Some (replicate 400 exampleRow)"
    unfolding example_cutoff by (rule exampleFeed_parsed)
  have ne: "replicate 400 exampleRow \<noteq> []" by simp
  show ?thesis
    using runUpdater_000_live [where upsert = failSecondBatch,
        OF nt(1) live in_season_clock(2) feed ne]
      runUpdater_000_live [where upsert = failFirstBatch,
        OF nt(2) live in_season_clock(2) feed ne]
    by (simp add: Let_def example_plays example_batches upt_0_4 failSecondBatch_def
        failFirstBatch_def)
qed

text \<open>
  Claim C3, amended. Take a live run (test flag off, in season, feed fetched and parsed)
  in which the collaborator answers every call, with success or with an error. The run
  submits every batch, in order: the calls are the \<open>\<lceil>n / 100\<rceil>\<close> contiguous slices of the
  plays, whatever the answers were, and the run ends with its final summary. In
  \<^verbatim>\<open>index.js\<close> (when at least one play passed the validation) the summary has
  \<^verbatim>\<open>attempted\<close> = the number of plays, \<^verbatim>\<open>successful\<close> = the total size of the accepted
  batches, \<^verbatim>\<open>failed\<close> = the total size of the refused batches, and in \<^verbatim>\<open>errors\<close> one entry for
  each refused batch, with its number and message, in order. In the second revision the
  summary has \<^verbatim>\<open>processed\<close> and \<^verbatim>\<open>failed\<close> with the same two totals and \<^verbatim>\<open>success\<close> exactly when
  no batch was refused; it does not name the refused batches.
\<close>

theorem batch_failure_isolation:
  assumes "\<forall>k batch message. upsert k batch \<noteq> UpsertThrew message"
    and "\<not> testMode cfg"
  shows "(inNflSeason h cfg \<and> fetchAndParsePbp h (cutoffDate cfg) sources = Some rows
            \<and> fst (transformPlays h rows) \<noteq> [] \<longrightarrow>
          (let plays = fst (transformPlays h rows);
               js = [0..<batchCount plays];
               answer = (\<lambda>j. upsert (Suc j) (batchAt plays j));
               ok = sum_list (map (\<lambda>j. case answer j of
                      UpsertOk \<Rightarrow> length (batchAt plays j) | _ \<Rightarrow> 0) js);
               bad = sum_list (map (\<lambda>j. case answer j of
                      UpsertError message \<Rightarrow> length (batchAt plays j) | _ \<Rightarrow> 0) js)
           in snd (runUpdater h cfg sources upsert) = map (batchAt plays) js
            \<and> concat (snd (runUpdater h cfg sources upsert)) = plays
            \<and> fst (runUpdater h cfg sources upsert) =
                Finished
                  \<lparr> success = (0 < ok), execution_mode_test = False,
                    valid_2025_plays = length plays,
                    skipped_plays = length (snd (transformPlays h rows)),
                    update_results =
                      \<lparr> attempted = length plays, successful = ok, failed = bad,
                        errors = concat (map (\<lambda>j. case answer j of
                          UpsertError message \<Rightarrow> [BatchError (Suc j) message] | _ \<Rightarrow> []) js) \<rparr> \<rparr>
            \<and> ok + bad = length plays))
       \<and> (inNflSeason_000 h cfg \<and> fetchAndParsePbp_000 h (cutoffDate cfg) sources = Some rows'
            \<and> rows' \<noteq> [] \<longrightarrow>
          (let plays = transformPlays_000 h rows';
               js = [0..<batchCount plays];
               answer = (\<lambda>j. upsert (Suc j) (batchAt plays j));
               ok = sum_list (map (\<lambda>j. case answer j of
                      UpsertOk \<Rightarrow> length (batchAt plays j) | _ \<Rightarrow> 0) js);
               bad = sum_list (map (\<lambda>j. case answer j of
                      UpsertError message \<Rightarrow> length (batchAt plays j) | _ \<Rightarrow> 0) js)
           in snd (runUpdater_000 h cfg sources upsert) = map (batchAt plays) js
            \<and> concat (snd (runUpdater_000 h cfg sources upsert)) = plays
            \<and> fst (runUpdater_000 h cfg sources upsert) =
                Done_000 (list_all (\<lambda>j. answer j = UpsertOk) js) ok bad
            \<and> ok + bad = length plays))"
proof (intro conjI impI)
  have nt: "\<And>k batch message. upsert k batch \<noteq> UpsertThrew message"
    using assms(1) by blast
  {
    assume a: "inNflSeason h cfg \<and> fetchAndParsePbp h (cutoffDate cfg) sources = Some rows
            \<and> fst (transformPlays h rows) \<noteq> []"
    let ?plays = "fst (transformPlays h rows)"
    have c: "concat (map (batchAt ?plays) [0..<batchCount ?plays]) = ?plays"
      using concat_batches_from [of ?plays 0] by simp
    have s: "sum_list (map (\<lambda>j. case upsert (Suc j) (batchAt ?plays j) of
                 UpsertOk \<Rightarrow> length (batchAt ?plays j) | _ \<Rightarrow> 0) [0..<batchCount ?plays])
         + sum_list (map (\<lambda>j. case upsert (Suc j) (batchAt ?plays j) of
                 UpsertError message \<Rightarrow> length (batchAt ?plays j) | _ \<Rightarrow> 0) [0..<batchCount ?plays])
         = length ?plays"
      using ok_plus_error_lengths [OF nt, where plays = ?plays and js = "[0..<batchCount ?plays]"]
      by (simp only: c)
    show "let plays = fst (transformPlays h rows);
               js = [0..<batchCount plays];
               answer = (\<lambda>j. upsert (Suc j) (batchAt plays j));
               ok = sum_list (map (\<lambda>j. case answer j of
                      UpsertOk \<Rightarrow> length (batchAt plays j) | _ \<Rightarrow> 0) js);
               bad = sum_list (map (\<lambda>j. case answer j of
                      UpsertError message \<Rightarrow> length (batchAt plays j) | _ \<Rightarrow> 0) js)
           in snd (runUpdater h cfg sources upsert) = map (batchAt plays) js
            \<and> concat (snd (runUpdater h cfg sources upsert)) = plays
            \<and> fst (runUpdater h cfg sources upsert) =
                Finished
                  \<lparr> success = (0 < ok), execution_mode_test = False,
                    valid_2025_plays = length plays,
                    skipped_plays = length (snd (transformPlays h rows)),
                    update_results =
                      \<lparr> attempted = length plays, successful = ok, failed = bad,
                        errors = concat (map (\<lambda>j. case answer j of
                          UpsertError message \<Rightarrow> [BatchError (Suc j) message] | _ \<Rightarrow> []) js) \<rparr> \<rparr>
            \<and> ok + bad = length plays"
      unfolding Let_def
      using runUpdater_live [OF nt assms(2), of h sources rows] a c s
      by (simp add: Let_def)
  }
  {
    assume a: "inNflSeason_000 h cfg \<and> fetchAndParsePbp_000 h (cutoffDate cfg) sources = Some rows'
            \<and> rows' \<noteq> []"
    let ?plays = "transformPlays_000 h rows'"
    have c: "concat (map (batchAt ?plays) [0..<batchCount ?plays]) = ?plays"
      using concat_batches_from [of ?plays 0] by simp
    have s: "sum_list (map (\<lambda>j. case upsert (Suc j) (batchAt ?plays j) of
                 UpsertOk \<Rightarrow> length (batchAt ?plays j) | _ \<Rightarrow> 0) [0..<batchCount ?plays])
         + sum_list (map (\<lambda>j. case upsert (Suc j) (batchAt ?plays j) of
                 UpsertError message \<Rightarrow> length (batchAt ?plays j) | _ \<Rightarrow> 0) [0..<batchCount ?plays])
         = length ?plays"
      using ok_plus_error_lengths [OF nt, where plays = ?plays and js = "[0..<batchCount ?plays]"]
      by (simp only: c)
    show "let plays = transformPlays_000 h rows';
               js = [0..<batchCount plays];
               answer = (\<lambda>j. upsert (Suc j) (batchAt plays j));
               ok = sum_list (map (\<lambda>j. case answer j of
                      UpsertOk \<Rightarrow> length (batchAt plays j) | _ \<Rightarrow> 0) js);
               bad = sum_list (map (\<lambda>j. case answer j of
                      UpsertError message \<Rightarrow> length (batchAt plays j) | _ \<Rightarrow> 0) js)
           in snd (runUpdater_000 h cfg sources upsert) = map (batchAt plays) js
            \<and> concat (snd (runUpdater_000 h cfg sources upsert)) = plays
            \<and> fst (runUpdater_000 h cfg sources upsert) =
                Done_000 (list_all (\<lambda>j. answer j = UpsertOk) js) ok bad
            \<and> ok + bad = length plays"
      unfolding Let_def
      using runUpdater_000_live [OF nt assms(2), of h sources rows'] a c s
      by (simp add: Let_def)
  }
qed

theorem batch_failure_isolation_witness:
  "fst (runUpdater exampleHost \<lparr>testMode = False, now = 1762085000000\<rparr> [NotOk, Body exampleFeed]
        failSecondBatch)
     = Finished
         \<lparr> success = True, execution_mode_test = False, valid_2025_plays = 400, skipped_plays = 0,
           update_results = \<lparr> attempted = 400, successful = 300, failed = 100,
             errors = [BatchError 2 (jstr ''timeout'')] \<rparr> \<rparr>
   \<and> map length (snd (runUpdater exampleHost \<lparr>testMode = False, now = 1762085000000\<rparr>
        [NotOk, Body exampleFeed] failSecondBatch)) = [100, 100, 100, 100]
   \<and> fst (runUpdater_000 exampleHost \<lparr>testMode = False, now = 1762085000000\<rparr>
        [NotOk, Body exampleFeed] failSecondBatch) = Done_000 False 300 100
   \<and> map length (snd (runUpdater_000 exampleHost \<lparr>testMode = False, now = 1762085000000\<rparr>
        [NotOk, Body exampleFeed] failSecondBatch)) = [100, 100, 100, 100]"
proof -
  let ?cfg = "\<lparr>testMode = False, now = 1762085000000\<rparr>"
  have nt: "\<forall>k batch message. failSecondBatch k batch \<noteq> UpsertThrew message"
    by (simp add: failSecondBatch_def)
  have live: "\<not> testMode ?cfg" by simp
  have feed: "fetchAndParsePbp exampleHost (cutoffDate ?cfg) [NotOk, Body exampleFeed]
      = Some (replicate 400 exampleRow)"
    "fetchAndParsePbp_000 exampleHost (cutoffDate ?cfg) [NotOk, Body exampleFeed]
      = Some (replicate 400 exampleRow)"
    unfolding example_cutoff by (rule exampleFeed_parsed)+
  have ne: "fst (transformPlays exampleHost (replicate 400 exampleRow)) \<noteq> []"
    "replicate 400 exampleRow \<noteq> []"
    by (simp_all add: example_plays)
  show ?thesis
    using batch_failure_isolation [OF nt live, of exampleHost "[NotOk, Body exampleFeed]"
        "replicate 400 exampleRow" "replicate 400 exampleRow"] in_season_clock feed ne
    by (simp add: Let_def example_plays example_batches upt_0_4 failSecondBatch_Suc numeral_2_eq_2)
qed

section \<open>Sanitized names in the record id\<close>

lemma inClass_not_whiteSpace: "inClass c \<Longrightarrow> \<not> isWhiteSpace c"
  by (auto simp: inClass_def isWhiteSpace_def)

lemma replaceWhiteSpace_none:
  "list_all (\<lambda>c. \<not> isWhiteSpace c) s \<Longrightarrow> replaceWhiteSpace inRun s = s"
  by (induction s arbitrary: inRun) simp_all

lemma list_all_filter_inClass: "list_all inClass (filter inClass s)"
  by (simp add: list_all_iff)

lemma filter_inClass_id: "list_all inClass s \<Longrightarrow> filter inClass s = s"
  by (simp add: list_all_iff)

text \<open>
  Claim C9. Whatever value \<open>sanitize\<close> is given, its result has only code units of
  \<^verbatim>\<open>[A-Za-z0-9_-]\<close>, and sanitizing that result again changes nothing. A run of white space
  becomes one underscore and the other code units outside the class disappear, as in the
  two names shown. In the \<^verbatim>\<open>id\<close> of every record the program builds, which joins six
  parts by underscores, the fourth part is the sanitized player name and the sixth the
  sanitized outcome name, so both are drawn from that class.
\<close>

theorem sanitize_alphabet_idempotent:
  "list_all inClass (sanitize h v)
   \<and> sanitize h (JStr (sanitize h v)) = sanitize h v
   \<and> sanitize h (JStr (jstr ''Patrick  Mahomes II'')) = jstr ''Patrick_Mahomes_II''
   \<and> sanitize h (JStr (jstr ''A.J. Brown'')) = jstr ''AJ_Brown''
   \<and> list_all (\<lambda>r. r_id r = joinWith (jstr ''_'') (idParts h ev book mkt out))
        (outcomeRecords h ev book mkt (Some out))
   \<and> length (idParts h ev book mkt out) = 6
   \<and> idParts h ev book mkt out ! 3 = sanitize h (o_description out)
   \<and> idParts h ev book mkt out ! 5 = sanitize h (o_name out)
   \<and> list_all inClass (idParts h ev book mkt out ! 3)
   \<and> list_all inClass (idParts h ev book mkt out ! 5)"
proof -
  have a: "list_all inClass (sanitize h x)" for x
    by (simp add: sanitize_def list_all_filter_inClass)
  have "list_all (\<lambda>c. \<not> isWhiteSpace c) (sanitize h v)"
    using a [of v] by (simp add: list_all_iff inClass_not_whiteSpace)
  then have b: "sanitize h (JStr (sanitize h v)) = sanitize h v"
    using a [of v] by (simp add: sanitize_def [of h "JStr _"] replaceWhiteSpace_none filter_inClass_id)
  have c: "sanitize h (JStr (jstr ''Patrick  Mahomes II'')) = jstr ''Patrick_Mahomes_II''"
    by (simp add: sanitize_def jstr_def isWhiteSpace_def inClass_def)
  have d: "sanitize h (JStr (jstr ''A.J. Brown'')) = jstr ''AJ_Brown''"
    by (simp add: sanitize_def jstr_def isWhiteSpace_def inClass_def)
  have e: "list_all (\<lambda>r. r_id r = joinWith (jstr ''_'') (idParts h ev book mkt out))
        (outcomeRecords h ev book mkt (Some out))"
    by (simp add: outcomeRecords_def)
  have f: "idParts h ev book mkt out ! 3 = sanitize h (o_description out)"
    "idParts h ev book mkt out ! 5 = sanitize h (o_name out)"
    "length (idParts h ev book mkt out) = 6"
    by (simp_all add: idParts_def numeral_3_eq_3 eval_nat_numeral)
  show ?thesis
    using a [of v] b c d e f a [of "o_description out"] a [of "o_name out"] by simp
qed

theorem sanitize_alphabet_idempotent_witness:
  "map r_id
     (outcomeRecords exampleHost
        \<lparr> e_id = JStr (jstr ''evt1''), e_home_team = JStr (jstr ''Kansas City Chiefs''),
           e_away_team = JStr (jstr ''Buffalo Bills''),
           e_commence_time = JStr (jstr ''2025-11-03T18:00:00Z'') \<rparr>
        \<lparr> b_key = JStr (jstr ''draftkings''), b_title = JStr (jstr ''DraftKings''),
           b_last_update = JNull, b_markets = None \<rparr>
        \<lparr> m_key = JStr (jstr ''player_pass_yds_alternate''), m_outcomes = None \<rparr>
        (Some \<lparr> o_description = JStr (jstr ''Patrick Mahomes''), o_point = JNum (Fin (501 / 2)),
                 o_name = JStr (jstr ''Over''), o_price = JNum (Fin 2) \<rparr>))
   = [jstr ''evt1_draftkings_player_pass_yds_alternate_Patrick_Mahomes_250.5_Over'']"
proof -
  have s: "sanitize exampleHost (JStr (jstr ''Patrick Mahomes'')) = jstr ''Patrick_Mahomes''"
    "sanitize exampleHost (JStr (jstr ''Over'')) = jstr ''Over''"
    by (simp_all add: sanitize_def jstr_def isWhiteSpace_def inClass_def)
  have n: "h_NumberToString exampleHost (Fin (501 / 2)) = jstr ''250.5''"
    by (simp add: exampleHost_def exampleNumberToString_def)
  show ?thesis
    using sanitize_alphabet_idempotent [of exampleHost "JNull"
        "\<lparr> e_id = JStr (jstr ''evt1''), e_home_team = JStr (jstr ''Kansas City Chiefs''),
           e_away_team = JStr (jstr ''Buffalo Bills''),
           e_commence_time = JStr (jstr ''2025-11-03T18:00:00Z'') \<rparr>"
        "\<lparr> b_key = JStr (jstr ''draftkings''), b_title = JStr (jstr ''DraftKings''),
           b_last_update = JNull, b_markets = None \<rparr>"
        "\<lparr> m_key = JStr (jstr ''player_pass_yds_alternate''), m_outcomes = None \<rparr>"
        "\<lparr> o_description = JStr (jstr ''Patrick Mahomes''), o_point = JNum (Fin (501 / 2)),
                 o_name = JStr (jstr ''Over''), o_price = JNum (Fin 2) \<rparr>"]
    by (simp add: outcomeRecords_def jstr_Nil_iff idParts_def s n) (simp add: jstr_def)
qed

section \<open>The window of upcoming games\<close>

lemma Day_mult_le: "Day t * msPerDay \<le> t"
proof -
  have "t = Day t * msPerDay + t mod msPerDay" by (simp add: Day_def)
  moreover have "0 \<le> t mod msPerDay" by (simp add: msPerDay_def)
  ultimately show ?thesis by linarith
qed

lemma Day_nonneg: "0 \<le> t \<Longrightarrow> 0 \<le> Day t"
  by (simp add: Day_def msPerDay_def pos_imp_zdiv_nonneg_iff)

lemma Day_of_midnight: "Day (d * msPerDay) = d" "TimeWithinDay (d * msPerDay) = 0"
  by (simp_all add: Day_def TimeWithinDay_def msPerDay_def)

lemma TimeClip_in_range: "0 \<le> u \<Longrightarrow> u \<le> 8640000000000000 \<Longrightarrow> TimeClip u = Some u"
  by (simp add: TimeClip_def)

lemma getUpcomingGamesWindow_valid:
  assumes "0 \<le> t" and "t \<le> 8639999654400000"
  shows "getUpcomingGamesWindow t
     = \<lparr> w_start = Some (Day t * msPerDay), w_end = Some (Day t * msPerDay + 4 * msPerDay) \<rparr>"
proof -
  define s where "s = Day t * msPerDay"
  have s0: "0 \<le> s" using Day_nonneg [OF assms(1)] by (simp add: s_def msPerDay_def)
  have st: "s \<le> t" using Day_mult_le [of t] by (simp add: s_def)
  have y: "(if 0 \<le> YearFromTime t \<and> YearFromTime t \<le> 99 then 1900 + YearFromTime t
      else YearFromTime t) = YearFromTime t"
    using YearFromTime_ge_1970 [OF assms(1)] by simp
  have "MakeDay (YearFromTime t) (MonthFromTime t) (DateFromTime t) = Day t"
    using MakeDay_of_time [of t 0] by simp
  then have "DateUTC (YearFromTime t) (MonthFromTime t) (DateFromTime t) 0 0 0 = TimeClip s"
    unfolding DateUTC_def Let_def y by (simp add: MakeDate_def MakeTime_def s_def)
  moreover have cs: "TimeClip s = Some s"
    using s0 st assms(2) by (intro TimeClip_in_range) simp_all
  ultimately have start: "(case DateUTC (YearFromTime t) (MonthFromTime t) (DateFromTime t) 0 0 0 of
      None \<Rightarrow> None | Some u \<Rightarrow> TimeClip u) = Some s"
    by simp
  have "MakeDay (YearFromTime s) (MonthFromTime s) (DateFromTime s + 4) = Day t + 4"
    using MakeDay_of_time [of s 4] Day_of_midnight(1) [of "Day t"] by (simp add: s_def)
  moreover have "TimeWithinDay s = 0"
    using Day_of_midnight(2) [of "Day t"] by (simp add: s_def)
  ultimately have "setUTCDate (Some s) (Some (DateFromTime s + 4)) = TimeClip (s + 4 * msPerDay)"
    by (simp add: setUTCDate_def MakeDate_def s_def algebra_simps)
  moreover have "TimeClip (s + 4 * msPerDay) = Some (s + 4 * msPerDay)"
    using s0 st assms(2) by (intro TimeClip_in_range) (simp_all add: msPerDay_def)
  ultimately show ?thesis
    unfolding getUpcomingGamesWindow_def Let_def start
    by (simp add: getUTCDate_def s_def)
qed



section \<open>Rows and events without a usable timestamp\<close>

lemma csvValues_no_date:
  "csvValues (jstr ''7,2025_44_DAL_PHI,'') = [jstr ''7'', jstr ''2025_44_DAL_PHI'', []]"
  by (simp add: csvValues_def jstr_def trim_def isWhiteSpace_def)

lemma csvValues_bad_date:
  "csvValues (jstr ''7,2025_44_DAL_PHI,not-a-date'')
     = [jstr ''7'', jstr ''2025_44_DAL_PHI'', jstr ''not-a-date'']"
  by (simp add: csvValues_def jstr_def trim_def isWhiteSpace_def)

lemma csvValues_NA_date:
  "csvValues (jstr ''7,2025_44_DAL_PHI,NA'') = [jstr ''7'', jstr ''2025_44_DAL_PHI'', jstr ''NA'']"
  by (simp add: csvValues_def jstr_def trim_def isWhiteSpace_def)

text \<open>
  The odds updater is fail-closed. An event whose \<^verbatim>\<open>commence_time\<close> is absent
  (\<^verbatim>\<open>undefined\<close>) or a string that is not a date is excluded, whatever the window is; an
  event whose \<^verbatim>\<open>commence_time\<close> is \<^verbatim>\<open>null\<close> (read as the epoch) is excluded by every window
  computed from a clock after 1970-01-02.
\<close>

lemma odds_event_without_time_excluded:
  "e_commence_time e = JUndefined \<or> (\<exists>s. e_commence_time e = JStr s \<and> h_DateParse h s = None)
     \<Longrightarrow> \<not> inWindow h w e"
  "msPerDay \<le> t \<and> t \<le> 8639999654400000 \<and> e_commence_time e = JNull
     \<Longrightarrow> \<not> inWindow h (getUpcomingGamesWindow t) e"
proof -
  assume "e_commence_time e = JUndefined
        \<or> (\<exists>s. e_commence_time e = JStr s \<and> h_DateParse h s = None)"
  then have "newDate h (e_commence_time e) = None" by auto
  then show "\<not> inWindow h w e" by (simp add: inWindow_def)
next
  assume a: "msPerDay \<le> t \<and> t \<le> 8639999654400000 \<and> e_commence_time e = JNull"
  then have t0: "0 \<le> t" by (simp add: msPerDay_def)
  have "86400000 div 86400000 \<le> t div (86400000::int)"
    using a by (intro zdiv_mono1) (simp_all add: msPerDay_def)
  then have "1 \<le> Day t" by (simp add: Day_def msPerDay_def)
  then have "0 < Day t * msPerDay" by (simp add: msPerDay_def)
  moreover have "newDate h (e_commence_time e) = Some 0" using a by (simp add: TimeClip_def)
  ultimately show "\<not> inWindow h (getUpcomingGamesWindow t) e"
    using getUpcomingGamesWindow_valid [OF t0] a by (simp add: inWindow_def)
qed

text \<open>
  Claim C1, at the inputs that show the defect. The feed writes a missing value as
  \<^verbatim>\<open>NA\<close>; the conversion helpers of both revisions read \<^verbatim>\<open>NA\<close> as \<^verbatim>\<open>null\<close>, and the \<^verbatim>\<open>else\<close>
  branch of the date filter in \<^verbatim>\<open>index.js\<close> is there to
  \<^verbatim>\<open>// Include plays without game_date (shouldn't happen but safe fallback)\<close>. Yet the
  filter tests the raw string: under the header \<^verbatim>\<open>play_id,game_id,game_date\<close>, the row
  \<^verbatim>\<open>7,2025_44_DAL_PHI,NA\<close> has a truthy \<^verbatim>\<open>game_date\<close>, the date made of it is invalid, the
  comparison with the cut-off is false, and \<^verbatim>\<open>index.js\<close> drops the row and counts it as an
  old play, whatever the cut-off is. Any other text that is not a date goes the same way
  (\<^verbatim>\<open>not-a-date\<close>). With an empty \<^verbatim>\<open>game_date\<close> the same row is admitted by \<^verbatim>\<open>index.js\<close>, as
  the claim says, but the second revision has lost the \<^verbatim>\<open>else\<close> branch and drops it. This
  holds for every host whose \<^verbatim>\<open>Date.parse\<close> finds no date in the two texts.
\<close>

theorem game_date_marker_not_admitted:
  assumes "h_DateParse h (jstr ''NA'') = None"
    and "h_DateParse h (jstr ''not-a-date'') = None"
  shows "(let headers = parseHeaders (jstr ''play_id,game_id,game_date'');
              marked = processLine h c headers st (jstr ''7,2025_44_DAL_PHI,NA'');
              garbled = processLine h c headers st (jstr ''7,2025_44_DAL_PHI,not-a-date'');
              empty = processLine h c headers st (jstr ''7,2025_44_DAL_PHI,'');
              marked_000 = processLine_000 h c headers st (jstr ''7,2025_44_DAL_PHI,NA'');
              empty_000 = processLine_000 h c headers st (jstr ''7,2025_44_DAL_PHI,'')
          in st_pbpData marked = st_pbpData st
           \<and> st_filteredOldPlays marked = st_filteredOldPlays st + 1
           \<and> st_validPlays marked = st_validPlays st
           \<and> st_pbpData garbled = st_pbpData st
           \<and> st_filteredOldPlays garbled = st_filteredOldPlays st + 1
           \<and> st_pbpData empty = st_pbpData st @
                [[(jstr ''play_id'', JStr (jstr ''7'')),
                  (jstr ''game_id'', JStr (jstr ''2025_44_DAL_PHI'')),
                  (jstr ''game_date'', JNull)]]
           \<and> st_pbpData marked_000 = st_pbpData st
           \<and> st_pbpData empty_000 = st_pbpData st
           \<and> safeText h (JStr (jstr ''NA'')) = JNull
           \<and> safeText_000 h (JStr (jstr ''NA'')) = JNull)"
  using assms
  by (simp add: processLine_def processLine_000_def parseHeaders_example csvValues_bad_date
      csvValues_no_date csvValues_NA_date makeRow_def getProp_def Let_def jstr_eq_iff jstr_Nil_iff
      safeText_def safeText_000_def)

theorem game_date_marker_not_admitted_witness:
  "(let headers = parseHeaders (jstr ''play_id,game_id,game_date'');
        st = \<lparr>st_pbpData = [], st_totalProcessed = 0, st_validPlays = 0, st_filteredOldPlays = 0\<rparr>;
        marked = processLine exampleHost (Some 1761480200000) headers st (jstr ''7,2025_44_DAL_PHI,NA'');
        empty = processLine exampleHost (Some 1761480200000) headers st (jstr ''7,2025_44_DAL_PHI,'');
        empty_000 = processLine_000 exampleHost (Some 1761480200000) headers st (jstr ''7,2025_44_DAL_PHI,'')
    in st_pbpData marked = [] \<and> st_filteredOldPlays marked = 1
     \<and> st_pbpData empty =
          [[(jstr ''play_id'', JStr (jstr ''7'')), (jstr ''game_id'', JStr (jstr ''2025_44_DAL_PHI'')),
            (jstr ''game_date'', JNull)]]
     \<and> st_pbpData empty_000 = [])"
proof -
  have p: "h_DateParse exampleHost (jstr ''NA'') = None"
    "h_DateParse exampleHost (jstr ''not-a-date'') = None"
    by (simp_all add: exampleHost_def exampleDateParse_def jstr_eq_iff)
  show ?thesis
    using game_date_marker_not_admitted [OF p, of "Some 1761480200000"
        "\<lparr>st_pbpData = [], st_totalProcessed = 0, st_validPlays = 0, st_filteredOldPlays = 0\<rparr>"]
    by (simp add: Let_def)
qed

section \<open>The season guard\<close>







section \<open>Dry run\<close>

lemma processPlays_test:
  assumes "testMode cfg"
  shows "snd (processPlays h cfg rows upsert) = []"
    and "fst (transformPlays h rows) \<noteq> [] \<Longrightarrow>
      processPlays h cfg rows upsert =
        (Finished
           \<lparr> success = True, execution_mode_test = True,
             valid_2025_plays = length (fst (transformPlays h rows)),
             skipped_plays = length (snd (transformPlays h rows)),
             update_results =
               \<lparr> attempted = length (fst (transformPlays h rows)),
                 successful = length (fst (transformPlays h rows)), failed = 0, errors = [] \<rparr> \<rparr>,
         [])"
proof -
  show "snd (processPlays h cfg rows upsert) = []"
    using assms by (simp add: processPlays_def Let_def)
  assume t: "fst (transformPlays h rows) \<noteq> []"
  then have "rows \<noteq> []" by (auto simp: transformPlays_def)
  then show "processPlays h cfg rows upsert =
        (Finished
           \<lparr> success = True, execution_mode_test = True,
             valid_2025_plays = length (fst (transformPlays h rows)),
             skipped_plays = length (snd (transformPlays h rows)),
             update_results =
               \<lparr> attempted = length (fst (transformPlays h rows)),
                 successful = length (fst (transformPlays h rows)), failed = 0, errors = [] \<rparr> \<rparr>,
         [])"
    using assms t by (simp add: processPlays_def Let_def)
qed

text \<open>The records the odds updater builds for one event: over the markets, those of
  each response that is \<^verbatim>\<open>ok\<close>.\<close>

definition linesOfEvent :: "host \<Rightarrow> (string \<Rightarrow> oddsResponse) \<Rightarrow> event \<Rightarrow> string list \<Rightarrow> nat" where
  "linesOfEvent h fetchOdds ev markets =
     sum_list (map (\<lambda>mk. case fetchOdds mk of
         OddsData bookmakers \<Rightarrow>
           length (buildRecords h ev (case bookmakers of None \<Rightarrow> [] | Some bs \<Rightarrow> bs))
       | _ \<Rightarrow> 0) markets)"

text \<open>The log of the upsert calls at the end of a loop, however it ended.\<close>

fun loggedCalls :: "'c + 'a \<times> 'c \<Rightarrow> 'c" where
  "loggedCalls (Inl calls) = calls"
| "loggedCalls (Inr (x, calls)) = calls"

lemma marketLoop_test_calls:
  "loggedCalls (marketLoop h True fetchOdds upsert ev markets eventLines calls) = calls"
  by (induction markets arbitrary: eventLines)
     (auto simp: Let_def split: oddsResponse.splits)

lemma marketLoop_test_lines:
  "\<forall>mk. fetchOdds mk \<noteq> OddsThrew \<Longrightarrow>
     marketLoop h True fetchOdds upsert ev markets eventLines calls
       = Inr (eventLines + linesOfEvent h fetchOdds ev markets, calls)"
proof (induction markets arbitrary: eventLines)
  case Nil
  show ?case by (simp add: linesOfEvent_def)
next
  case (Cons mk markets)
  show ?case
  proof (cases "fetchOdds mk")
    case OddsThrew
    then show ?thesis using Cons.prems by blast
  next
    case OddsNotOk
    then show ?thesis using Cons by (simp add: linesOfEvent_def)
  next
    case (OddsData bookmakers)
    then show ?thesis using Cons by (simp add: linesOfEvent_def Let_def)
  qed
qed

lemma eventLoop_test_calls:
  "loggedCalls (eventLoop h True fetchOdds upsert i events acc calls) = calls"
proof (induction events arbitrary: i acc)
  case Nil
  show ?case by simp
next
  case (Cons ev events)
  show ?case
  proof (cases "marketLoop h True (fetchOdds i) (upsert i) ev ALTERNATE_MARKETS 0 calls")
    case (Inl calls')
    then show ?thesis
      using marketLoop_test_calls [where h = h and fetchOdds = "fetchOdds i" and upsert = "upsert i"
        and ev = ev and markets = ALTERNATE_MARKETS and eventLines = 0 and calls = calls]
      by simp
  next
    case (Inr p)
    then show ?thesis
      using marketLoop_test_calls [where h = h and fetchOdds = "fetchOdds i" and upsert = "upsert i"
        and ev = ev and markets = ALTERNATE_MARKETS and eventLines = 0 and calls = calls]
      by (cases p) (simp add: Cons.IH)
  qed
qed

lemma eventLoop_test_lines:
  assumes "\<forall>i mk. fetchOdds i mk \<noteq> OddsThrew"
  shows "\<exists>acc'. eventLoop h True fetchOdds upsert i events acc calls = Inr (acc', calls)
     \<and> totalInserted acc' = totalInserted acc
          + sum_list (map (\<lambda>(j, ev). linesOfEvent h (fetchOdds j) ev ALTERNATE_MARKETS)
              (zip [i..<i + length events] events))"
proof (induction events arbitrary: i acc)
  case Nil
  show ?case by simp
next
  case (Cons ev events)
  have m: "marketLoop h True (fetchOdds i) (upsert i) ev ALTERNATE_MARKETS 0 calls
      = Inr (linesOfEvent h (fetchOdds i) ev ALTERNATE_MARKETS, calls)"
    using marketLoop_test_lines [where h = h and fetchOdds = "fetchOdds i" and upsert = "upsert i"
        and ev = ev and markets = ALTERNATE_MARKETS and eventLines = 0 and calls = calls] assms
    by simp
  have u: "[i..<i + length (ev # events)] = i # [Suc i..<Suc i + length events]"
    using upt_conv_Cons [of i "i + Suc (length events)"] by simp
  show ?case
  proof (cases "linesOfEvent h (fetchOdds i) ev ALTERNATE_MARKETS > 0")
    case True
    then show ?thesis
      using Cons.IH [of "Suc i" "acc\<lparr> withData := withData acc + 1,
          totalInserted := totalInserted acc + linesOfEvent h (fetchOdds i) ev ALTERNATE_MARKETS \<rparr>"]
      unfolding u by (auto simp: m)
  next
    case False
    then show ?thesis
      using Cons.IH [of "Suc i" "acc\<lparr> noData := noData acc + 1 \<rparr>"]
      unfolding u by (auto simp: m)
  qed
qed

text \<open>
  Claim C7. With the test flag on, no run of any of the three programs calls the
  persistence collaborator: the log of upsert calls is empty, whatever the feed holds and
  whatever the collaborator would have answered. In \<^verbatim>\<open>index.js\<close>, when \<open>n > 0\<close> plays pass the
  validation, the summary reports them all: \<^verbatim>\<open>attempted = successful = n\<close>, \<^verbatim>\<open>failed = 0\<close>
  and no errors. The second revision reports \<open>n\<close> as \<^verbatim>\<open>processed\<close>. The odds updater, when
  no request for odds throws, reports as \<^verbatim>\<open>totalLinesInserted\<close> the number of all records it
  built for the events in the window.
\<close>

theorem dry_run_no_upsert:
  assumes "testMode cfg"
  shows "snd (runUpdater h cfg sources upsert) = []
   \<and> snd (processPlays h cfg rows upsert) = []
   \<and> (fst (transformPlays h rows) \<noteq> [] \<longrightarrow>
        fst (processPlays h cfg rows upsert) =
          Finished
            \<lparr> success = True, execution_mode_test = True,
              valid_2025_plays = length (fst (transformPlays h rows)),
              skipped_plays = length (snd (transformPlays h rows)),
              update_results =
                \<lparr> attempted = length (fst (transformPlays h rows)),
                  successful = length (fst (transformPlays h rows)), failed = 0,
                  errors = [] \<rparr> \<rparr>)
   \<and> snd (runUpdater_000 h cfg sources upsert) = []
   \<and> snd (processPlays_000 h cfg rows upsert) = []
   \<and> (rows \<noteq> [] \<longrightarrow>
        fst (processPlays_000 h cfg rows upsert) = TestRun_000 (length (transformPlays_000 h rows)))
   \<and> snd (runUpdater_001 h True t eventsRes fetchOdds upsert') = []
   \<and> ((\<forall>i mk. fetchOdds i mk \<noteq> OddsThrew) \<and> 0 \<le> t \<and> t \<le> 8639999654400000
        \<and> filter (inWindow h (getUpcomingGamesWindow t)) allEvents \<noteq> [] \<longrightarrow>
        (let events = filter (inWindow h (getUpcomingGamesWindow t)) allEvents
         in \<exists>c. fst (runUpdater_001 h True t (Events allEvents) fetchOdds upsert') = Completed_001 c
              \<and> eventsProcessed c = length events
              \<and> totalLinesInserted c
                  = sum_list (map (\<lambda>(j, ev). linesOfEvent h (fetchOdds j) ev ALTERNATE_MARKETS)
                      (zip [0..<length events] events))))"
proof (intro conjI impI)
  show "snd (runUpdater h cfg sources upsert) = []"
    using assms processPlays_test(1) [OF assms]
    by (simp add: runUpdater_def split: option.splits)
  show "snd (processPlays h cfg rows upsert) = []"
    by (rule processPlays_test(1) [OF assms])
  show "snd (runUpdater_000 h cfg sources upsert) = []"
    using assms by (simp add: runUpdater_000_def processPlays_000_def Let_def split: option.splits)
  show "snd (processPlays_000 h cfg rows upsert) = []"
    using assms by (simp add: processPlays_000_def Let_def)
  show "snd (runUpdater_001 h True t eventsRes fetchOdds upsert') = []"
  proof -
    have "snd (case eventLoop h True fetchOdds upsert' 0 events
                  \<lparr> totalInserted = 0, withData = 0, noData = 0 \<rparr> [] of
             Inl calls \<Rightarrow> (Fatal_001, calls)
           | Inr (acc, calls) \<Rightarrow> (Completed_001 (f acc), calls)) = []" for events f
      using eventLoop_test_calls [where h = h and fetchOdds = fetchOdds and upsert = upsert'
          and i = 0 and events = events and calls = "[]"
          and acc = "\<lparr> totalInserted = 0, withData = 0, noData = 0 \<rparr>"]
      by (auto split: sum.splits)
    then show ?thesis
      by (simp add: runUpdater_001_def Let_def split: eventsResponse.splits)
  qed
next
  assume "fst (transformPlays h rows) \<noteq> []"
  then show "fst (processPlays h cfg rows upsert) =
          Finished
            \<lparr> success = True, execution_mode_test = True,
              valid_2025_plays = length (fst (transformPlays h rows)),
              skipped_plays = length (snd (transformPlays h rows)),
              update_results =
                \<lparr> attempted = length (fst (transformPlays h rows)),
                  successful = length (fst (transformPlays h rows)), failed = 0,
                  errors = [] \<rparr> \<rparr>"
    using processPlays_test(2) [OF assms, of h rows upsert] by simp
next
  assume "rows \<noteq> []"
  then show "fst (processPlays_000 h cfg rows upsert) = TestRun_000 (length (transformPlays_000 h rows))"
    using assms by (simp add: processPlays_000_def Let_def)
next
  assume a: "(\<forall>i mk. fetchOdds i mk \<noteq> OddsThrew) \<and> 0 \<le> t \<and> t \<le> 8639999654400000
        \<and> filter (inWindow h (getUpcomingGamesWindow t)) allEvents \<noteq> []"
  define events where "events = filter (inWindow h (getUpcomingGamesWindow t)) allEvents"
  obtain acc' where e: "eventLoop h True fetchOdds upsert' 0 events
        \<lparr> totalInserted = 0, withData = 0, noData = 0 \<rparr> [] = Inr (acc', [])"
      and n: "totalInserted acc' = sum_list (map (\<lambda>(j, ev). linesOfEvent h (fetchOdds j) ev ALTERNATE_MARKETS)
                      (zip [0..<length events] events))"
    using eventLoop_test_lines [where fetchOdds = fetchOdds and h = h and upsert = upsert'
        and i = 0 and events = events and calls = "[]"
        and acc = "\<lparr> totalInserted = 0, withData = 0, noData = 0 \<rparr>"] a
    by auto
  have w: "w_start (getUpcomingGamesWindow t) \<noteq> None" "w_end (getUpcomingGamesWindow t) \<noteq> None"
    using getUpcomingGamesWindow_valid [of t] a by simp_all
  have "fst (runUpdater_001 h True t (Events allEvents) fetchOdds upsert')
      = Completed_001 \<lparr> eventsProcessed = length events, eventsWithData = withData acc',
          eventsWithNoData = noData acc', totalLinesInserted = totalInserted acc',
          c_testMode = True \<rparr>"
    using a w e by (simp add: runUpdater_001_def Let_def events_def [symmetric])
  then show "let events = filter (inWindow h (getUpcomingGamesWindow t)) allEvents
         in \<exists>c. fst (runUpdater_001 h True t (Events allEvents) fetchOdds upsert') = Completed_001 c
              \<and> eventsProcessed c = length events
              \<and> totalLinesInserted c
                  = sum_list (map (\<lambda>(j, ev). linesOfEvent h (fetchOdds j) ev ALTERNATE_MARKETS)
                      (zip [0..<length events] events))"
    using n by (simp add: events_def [symmetric])
qed

text \<open>An event in the window of the example clock, and an answer of the Odds API that has
  one usable outcome (and a \<^verbatim>\<open>null\<close> one) for the first market and is not \<^verbatim>\<open>ok\<close> for the
  others.\<close>

definition exampleEvent :: event where
  "exampleEvent =
     \<lparr> e_id = JStr (jstr ''evt1''), e_home_team = JStr (jstr ''Kansas City Chiefs''),
       e_away_team = JStr (jstr ''Buffalo Bills''),
       e_commence_time = JStr (jstr ''2025-11-03T18:00:00Z'') \<rparr>"

definition exampleFetchOdds :: "nat \<Rightarrow> string \<Rightarrow> oddsResponse" where
  "exampleFetchOdds i mk =
     (if mk = ''player_pass_yds_alternate''
      then OddsData (Some
        [\<lparr> b_key = JStr (jstr ''draftkings''), b_title = JStr (jstr ''DraftKings''),
            b_last_update = JNull,
            b_markets = Some
              [\<lparr> m_key = JStr (jstr ''player_pass_yds_alternate''),
                  m_outcomes = Some
                    [Some \<lparr> o_description = JStr (jstr ''Patrick Mahomes''),
                             o_point = JNum (Fin (501 / 2)), o_name = JStr (jstr ''Over''),
                             o_price = JNum (Fin 2) \<rparr>,
                     None] \<rparr>] \<rparr>])
      else OddsNotOk)"

lemma exampleEvent_inWindow:
  "inWindow exampleHost (getUpcomingGamesWindow 1762085000000) exampleEvent"
proof -
  have r: "(0::int) \<le> 1762085000000" "(1762085000000::int) \<le> 8639999654400000" by simp_all
  have d: "Day 1762085000000 * msPerDay = 1762041600000"
    by (simp add: Day_def msPerDay_def)
  have w: "getUpcomingGamesWindow 1762085000000
      = \<lparr> w_start = Some 1762041600000, w_end = Some 1762387200000 \<rparr>"
    using getUpcomingGamesWindow_valid [OF r] unfolding d by (simp add: msPerDay_def)
  have "newDate exampleHost (e_commence_time exampleEvent) = Some 1762192800000"
    by (simp add: exampleEvent_def exampleHost_def exampleDateParse_def TimeClip_def jstr_eq_iff)
  then show ?thesis
    by (simp add: inWindow_def w)
qed

lemma exampleEvent_lines:
  "linesOfEvent exampleHost (exampleFetchOdds 0) exampleEvent ALTERNATE_MARKETS = 1"
  by (simp add: linesOfEvent_def ALTERNATE_MARKETS_def exampleFetchOdds_def buildRecords_def
      outcomeRecords_def jstr_Nil_iff)

theorem dry_run_no_upsert_witness:
  "fst (processPlays exampleHost \<lparr>testMode = True, now = 1762085000000\<rparr>
        (replicate 150 [(jstr ''play_id'', JStr (jstr ''7'')),
                        (jstr ''game_id'', JStr (jstr ''2025_44_DAL_PHI''))])
        failSecondBatch)
     = Finished
         \<lparr> success = True, execution_mode_test = True, valid_2025_plays = 150, skipped_plays = 0,
           update_results = \<lparr> attempted = 150, successful = 150, failed = 0, errors = [] \<rparr> \<rparr>
   \<and> snd (processPlays exampleHost \<lparr>testMode = True, now = 1762085000000\<rparr>
        (replicate 150 [(jstr ''play_id'', JStr (jstr ''7'')),
                        (jstr ''game_id'', JStr (jstr ''2025_44_DAL_PHI''))])
        failSecondBatch) = []
   \<and> fst (processPlays_000 exampleHost \<lparr>testMode = True, now = 1762085000000\<rparr>
        (replicate 150 [(jstr ''play_id'', JStr (jstr ''7'')),
                        (jstr ''game_id'', JStr (jstr ''2025_44_DAL_PHI''))])
        failSecondBatch) = TestRun_000 150
   \<and> (\<exists>c. fst (runUpdater_001 exampleHost True 1762085000000 (Events [exampleEvent])
              exampleFetchOdds (\<lambda>i mk records. UpsertError (jstr ''down'')))
            = Completed_001 c
          \<and> eventsProcessed c = 1 \<and> totalLinesInserted c = 1)
   \<and> snd (runUpdater_001 exampleHost True 1762085000000 (Events [exampleEvent])
              exampleFetchOdds (\<lambda>i mk records. UpsertError (jstr ''down''))) = []"
proof -
  let ?row = "[(jstr ''play_id'', JStr (jstr ''7'')), (jstr ''game_id'', JStr (jstr ''2025_44_DAL_PHI''))]"
  have v: "passesValidation ?row"
    by (simp add: passesValidation_def getProp_def jstr_eq_iff jstr_Nil_iff)
  have n: "length (fst (transformPlays exampleHost (replicate 150 ?row))) = 150"
    "length (snd (transformPlays exampleHost (replicate 150 ?row))) = 0"
    "length (transformPlays_000 exampleHost (replicate 150 ?row)) = 150"
    using v by (simp_all add: transformPlays_eq transformPlays_000_eq)
  then have ne: "fst (transformPlays exampleHost (replicate 150 ?row)) \<noteq> []"
    by auto
  have rne: "replicate 150 ?row \<noteq> []" by simp
  have t: "testMode \<lparr>testMode = True, now = 1762085000000\<rparr>" by simp
  have f: "\<forall>i mk. exampleFetchOdds i mk \<noteq> OddsThrew"
    by (simp add: exampleFetchOdds_def)
  have r: "(0::int) \<le> 1762085000000 \<and> (1762085000000::int) \<le> 8639999654400000" by simp
  show ?thesis
    using dry_run_no_upsert [OF t, where h = exampleHost and rows = "replicate 150 ?row"
        and upsert = failSecondBatch and t = 1762085000000 and allEvents = "[exampleEvent]"
        and fetchOdds = exampleFetchOdds and eventsRes = "Events [exampleEvent]"
        and upsert' = "\<lambda>i mk records. UpsertError (jstr ''down'')"] ne rne f r
    by (simp add: n exampleEvent_inWindow exampleEvent_lines)
qed

end
